theory Spec2Isabelle
  imports Main
begin

section \<open>Values exchanged by the gateway\<close>

text \<open>
  The gateway (\<^verbatim>\<open>gateway/service.py\<close>, \<^verbatim>\<open>gateway/schemas.py\<close>) holds no state of its
  own. It decodes a request, calls the products and orders services through two RPC
  proxies, and serialises the answer. The embedding follows that shape: the two proxies
  are a record of reply functions, every handler returns its result together with the
  list of RPC calls it issued, in order, and every exception is a value of \<open>error\<close>.
\<close>

text \<open>
  The Python objects that reach \<^verbatim>\<open>json.dumps\<close>, and the decoded request bodies. A
  \<open>JObj\<close> stands for a \<^verbatim>\<open>dict\<close>: its keys are distinct and their order carries no
  meaning. Floating-point numbers are not part of the model.
\<close>

datatype json =
    JNull
  | JBool bool
  | JInt int
  | JStr string
  | JList "json list"
  | JObj "(string \<times> json) list"

text \<open>
  The exceptions of \<^verbatim>\<open>gateway.exceptions\<close>, of marshmallow, of nameko and of Python
  itself that the handlers raise or let through. \<open>ValueError s\<close> is the error of
  \<^verbatim>\<open>int(s)\<close> on the literal \<open>s\<close>; \<open>RemoteError\<close> is any other failure of a remote
  call.
\<close>

datatype error =
    ProductNotFound string
  | OrderNotFound string
  | ProductExists string
  | BadRequest string
  | ValidationError
  | ValueError string
  | KeyError string
  | TypeError
  | RemoteError string

text \<open>A product as the products service returns it (the keys of \<^verbatim>\<open>CreateProductSchema\<close>;
  \<open>p_id\<close> is the key \<^verbatim>\<open>id\<close>).\<close>

record product =
  p_id :: string
  title :: string
  maximum_speed :: int
  in_stock :: int
  passenger_capacity :: int

text \<open>
  A \<^verbatim>\<open>decimal.Decimal\<close> that is finite: sign, coefficient and exponent, the value being
  \<open>(-1)^sign * coefficient * 10^exponent\<close>. Python keeps the coefficient as a digit
  string without leading zeros, which a natural number represents exactly.
\<close>

record decimal =
  dec_sign :: bool
  dec_int :: nat
  dec_exp :: int

text \<open>What \<^verbatim>\<open>CreateOrderSchema(strict=True).loads\<close> yields: a dict with the key
  \<^verbatim>\<open>order_details\<close>, a list of dicts with the three keys of
  \<^verbatim>\<open>CreateOrderDetailSchema\<close>.\<close>

record create_order_detail =
  product_id :: string
  price :: decimal
  quantity :: int

record create_order_data =
  order_details :: "create_order_detail list"

text \<open>
  An order as the orders service returns it and as \<^verbatim>\<open>_get_order\<close> enriches it. The field
  \<open>detail_x\<close> is the key \<^verbatim>\<open>x\<close> of a line; \<open>order_id\<close> and \<open>order_lines\<close> are the keys
  \<^verbatim>\<open>id\<close> and \<^verbatim>\<open>order_details\<close> of the order. A key that may be absent from the dict is
  an option. The price travels as a string.
\<close>

record order_detail =
  detail_id :: int
  detail_quantity :: int
  detail_product_id :: string
  detail_image :: "string option"
  detail_price :: string
  detail_product :: "product option"

record order =
  order_id :: int
  order_lines :: "order_detail list"

text \<open>What \<^verbatim>\<open>UpdateProductSchema(strict=True).loads\<close> yields: always the four keys, each
  \<^verbatim>\<open>None\<close> (the declared \<^verbatim>\<open>missing=None\<close>) when the body does not supply it.\<close>

record update_product_data =
  upd_title :: "string option"
  upd_maximum_speed :: "int option"
  upd_in_stock :: "int option"
  upd_passenger_capacity :: "int option"

text \<open>The result dict of the orders service's \<^verbatim>\<open>create_order\<close>; \<open>result_id\<close> is its key
  \<^verbatim>\<open>id\<close>.\<close>

record create_order_result =
  result_id :: int

subsection \<open>The RPC proxies\<close>

text \<open>
  \<^verbatim>\<open>products_rpc\<close> and \<^verbatim>\<open>orders_rpc\<close> are nameko proxies; the services behind them are
  not part of the gateway. A \<open>backend\<close> gives the reply of each remote method as it
  stands while one request is handled: \<open>Inl e\<close> when the call raises \<open>e\<close>.
\<close>

record backend =
  products_get :: "string \<Rightarrow> error + product"
  products_exists :: "string \<Rightarrow> error + bool"
  products_update :: "string \<Rightarrow> update_product_data \<Rightarrow> error + unit"
  orders_get_order :: "int \<Rightarrow> error + order"
  orders_list_orders :: "int \<Rightarrow> int \<Rightarrow> error + order list"
  orders_create_order :: "json \<Rightarrow> error + create_order_result"

text \<open>One remote call, with its arguments.\<close>

datatype rpc_call =
    ProductsGet string
  | ProductsExists string
  | ProductsUpdate string update_product_data
  | OrdersGetOrder int
  | OrdersListOrders int int
  | OrdersCreateOrder json

fun is_create_order :: "rpc_call \<Rightarrow> bool" where
  "is_create_order (OrdersCreateOrder _) = True"
| "is_create_order _ = False"

fun is_products_exists :: "rpc_call \<Rightarrow> bool" where
  "is_products_exists (ProductsExists _) = True"
| "is_products_exists _ = False"

section \<open>Python and marshmallow primitives\<close>

text \<open>
  Strings are ASCII here: a \<open>char\<close> is one byte, and the digits and blanks Python
  knows beyond ASCII are outside the model.
\<close>

definition is_digit :: "char \<Rightarrow> bool" where
  "is_digit c \<longleftrightarrow> c \<in> set ''0123456789''"

text \<open>The blanks \<^verbatim>\<open>str.strip()\<close> removes, and the fewer ones \<^verbatim>\<open>int\<close> skips around
  a literal.\<close>

definition is_space :: "char \<Rightarrow> bool" where
  "is_space c \<longleftrightarrow>
     c \<in> set [CHR '' '', CHR 0x09, CHR 0x0A, CHR 0x0B, CHR 0x0C, CHR 0x0D,
               CHR 0x1C, CHR 0x1D, CHR 0x1E, CHR 0x1F]"

definition is_int_space :: "char \<Rightarrow> bool" where
  "is_int_space c \<longleftrightarrow>
     c \<in> set [CHR '' '', CHR 0x09, CHR 0x0A, CHR 0x0B, CHR 0x0C, CHR 0x0D]"

definition digit_val :: "char \<Rightarrow> nat" where
  "digit_val c = of_char c - 48"

definition nat_of_digits :: "string \<Rightarrow> nat" where
  "nat_of_digits s = foldl (\<lambda>n c. 10 * n + digit_val c) 0 s"

definition digit_char :: "nat \<Rightarrow> char" where
  "digit_char n = char_of (48 + n)"

text \<open>\<^verbatim>\<open>str(n)\<close> for a natural number.\<close>

fun digits_of_nat :: "nat \<Rightarrow> string" where
  "digits_of_nat n =
     (if n < 10 then [digit_char n]
      else digits_of_nat (n div 10) @ [digit_char (n mod 10)])"

declare digits_of_nat.simps [simp del]

text \<open>\<^verbatim>\<open>str.strip()\<close>.\<close>

definition strip :: "string \<Rightarrow> string" where
  "strip s = rev (dropWhile is_space (rev (dropWhile is_space s)))"

text \<open>The digit part of an integer literal: digits, with single underscores allowed
  between two digits.\<close>

fun int_digits :: "string \<Rightarrow> bool" where
  "int_digits [] = False"
| "int_digits [c] = is_digit c"
| "int_digits (c # d # cs) =
     (is_digit c \<and> (if d = CHR ''_'' then int_digits cs else int_digits (d # cs)))"

text \<open>
  \<^verbatim>\<open>int(s)\<close> for a string: blanks around the literal are dropped, a sign may lead, the
  rest is a digit part in base ten. Anything else raises \<^verbatim>\<open>ValueError\<close>.
\<close>

definition py_int :: "string \<Rightarrow> error + int" where
  "py_int s =
     (let t = rev (dropWhile is_int_space (rev (dropWhile is_int_space s)));
          (neg, body) =
            (case t of
               c # r \<Rightarrow>
                 if c = CHR ''-'' then (True, r)
                 else if c = CHR ''+'' then (False, r)
                 else (False, t)
             | [] \<Rightarrow> (False, t))
      in if int_digits body
         then (let n = int (nat_of_digits (filter is_digit body))
               in Inr (if neg then - n else n))
         else Inl (ValueError s))"

subsection \<open>Decimals\<close>

text \<open>The exponent of a numeric string: empty, or \<^verbatim>\<open>E\<close>, an optional sign and digits.\<close>

definition parse_exponent :: "string \<Rightarrow> int option" where
  "parse_exponent s =
     (case s of
        [] \<Rightarrow> Some 0
      | e # r \<Rightarrow>
          if e = CHR ''e'' \<or> e = CHR ''E'' then
            (let (neg, ds) =
               (case r of
                  c # r' \<Rightarrow>
                    if c = CHR ''-'' then (True, r')
                    else if c = CHR ''+'' then (False, r')
                    else (False, r)
                | [] \<Rightarrow> (False, r))
             in if ds \<noteq> [] \<and> list_all is_digit ds
                then Some (if neg then - int (nat_of_digits ds) else int (nat_of_digits ds))
                else None)
          else None)"

text \<open>
  \<^verbatim>\<open>decimal.Decimal(s)\<close> for a string, where it yields a finite number: blanks around
  the literal and all underscores are removed; then a sign may lead, an integer part
  and a fractional part follow (one digit at least between them), and an exponent may
  end the literal. \<open>None\<close> stands for the strings Python rejects
  (\<^verbatim>\<open>InvalidOperation\<close>) and for infinities and NaNs, which the marshmallow field
  rejects (\<^verbatim>\<open>allow_nan\<close> is off): in both cases the field fails.
\<close>

definition parse_decimal :: "string \<Rightarrow> decimal option" where
  "parse_decimal s =
     (let t = filter (\<lambda>c. c \<noteq> CHR ''_'') (strip s);
          (neg, r) =
            (case t of
               c # r' \<Rightarrow>
                 if c = CHR ''-'' then (True, r')
                 else if c = CHR ''+'' then (False, r')
                 else (False, t)
             | [] \<Rightarrow> (False, t));
          intpart = takeWhile is_digit r;
          r1 = dropWhile is_digit r;
          (fracpart, r2) =
            (case r1 of
               c # r' \<Rightarrow>
                 if c = CHR ''.'' then (takeWhile is_digit r', dropWhile is_digit r')
                 else ([], r1)
             | [] \<Rightarrow> ([], r1))
      in if intpart = [] \<and> fracpart = [] then None
         else (case parse_exponent r2 of
                 None \<Rightarrow> None
               | Some e \<Rightarrow>
                   Some \<lparr>dec_sign = neg,
                         dec_int = nat_of_digits (intpart @ fracpart),
                         dec_exp = e - int (length fracpart)\<rparr>))"

text \<open>
  \<^verbatim>\<open>format(d, 'f')\<close>, which the \<^verbatim>\<open>Decimal\<close> field with \<^verbatim>\<open>as_string=True\<close> applies: the
  digits of the coefficient with the decimal point placed by the exponent, no exponent
  notation. A zero with a positive exponent is first rescaled to exponent 0.
\<close>

definition format_f :: "decimal \<Rightarrow> string" where
  "format_f d =
     (let e = (if dec_int d = 0 \<and> dec_exp d > 0 then 0 else dec_exp d);
          ds = digits_of_nat (dec_int d);
          dotplace = e + int (length ds);
          (intpart, fracpart) =
            (if dotplace < 0 then (''0'', replicate (nat (- dotplace)) CHR ''0'' @ ds)
             else if dotplace > int (length ds)
               then (ds @ replicate (nat (dotplace - int (length ds))) CHR ''0'', [])
             else ((if take (nat dotplace) ds = [] then ''0'' else take (nat dotplace) ds),
                   drop (nat dotplace) ds))
      in (if dec_sign d then ''-'' else []) @ intpart @
         (if fracpart = [] then [] else CHR ''.'' # fracpart))"

section \<open>The schemas\<close>

text \<open>
  \<^verbatim>\<open>gateway/schemas.py\<close> declares the marshmallow schemas; what a field does on load
  and on dump is marshmallow's (version 2: a load or dump result has \<^verbatim>\<open>.data\<close>). A
  field that fails yields \<open>None\<close>. A strict schema then raises \<^verbatim>\<open>ValidationError\<close>
  (its messages are not modelled); a schema that is not strict leaves the key out of
  the dumped dict.
\<close>

text \<open>\<^verbatim>\<open>fields.Str\<close> on load: the value must be a string.\<close>

fun load_Str :: "json \<Rightarrow> string option" where
  "load_Str (JStr s) = Some s"
| "load_Str _ = None"

text \<open>\<^verbatim>\<open>fields.Int\<close> on load: \<^verbatim>\<open>int(value)\<close>, failing on \<^verbatim>\<open>TypeError\<close> and
  \<^verbatim>\<open>ValueError\<close>.\<close>

fun load_Int :: "json \<Rightarrow> int option" where
  "load_Int (JInt n) = Some n"
| "load_Int (JBool b) = Some (if b then 1 else 0)"
| "load_Int (JStr s) = (case py_int s of Inl _ \<Rightarrow> None | Inr n \<Rightarrow> Some n)"
| "load_Int _ = None"

text \<open>\<^verbatim>\<open>fields.Decimal\<close> on load: \<^verbatim>\<open>Decimal(str(value))\<close>. The string of an integer is
  its digits; the string of any other value in the model is no number.\<close>

fun load_Decimal :: "json \<Rightarrow> decimal option" where
  "load_Decimal (JStr s) = parse_decimal s"
| "load_Decimal (JInt n) = Some \<lparr>dec_sign = n < 0, dec_int = nat \<bar>n\<bar>, dec_exp = 0\<rparr>"
| "load_Decimal _ = None"

text \<open>A field declared \<^verbatim>\<open>required=True\<close>: the key must be there and must not be
  \<^verbatim>\<open>null\<close>.\<close>

definition required :: "(json \<Rightarrow> 'a option) \<Rightarrow> json option \<Rightarrow> 'a option" where
  "required f v = (case v of None \<Rightarrow> None | Some JNull \<Rightarrow> None | Some j \<Rightarrow> f j)"

text \<open>A field declared \<^verbatim>\<open>required=False, missing=None\<close>: an absent key loads as
  \<^verbatim>\<open>None\<close>, and so does \<^verbatim>\<open>null\<close>, which \<^verbatim>\<open>missing=None\<close> makes a valid value.\<close>

definition missing_None :: "(json \<Rightarrow> 'a option) \<Rightarrow> json option \<Rightarrow> 'a option option" where
  "missing_None f v =
     (case v of None \<Rightarrow> Some None | Some JNull \<Rightarrow> Some None | Some j \<Rightarrow> map_option Some (f j))"

text \<open>\<^verbatim>\<open>many=True\<close> on load: every element must load.\<close>

fun load_many :: "(json \<Rightarrow> 'a option) \<Rightarrow> json list \<Rightarrow> 'a list option" where
  "load_many f [] = Some []"
| "load_many f (j # js) =
     (case f j of
        None \<Rightarrow> None
      | Some x \<Rightarrow> (case load_many f js of None \<Rightarrow> None | Some xs \<Rightarrow> Some (x # xs)))"

subsection \<open>\<^verbatim>\<open>CreateProductSchema\<close>\<close>

definition dump_CreateProductSchema :: "product \<Rightarrow> json" where
  "dump_CreateProductSchema p =
     JObj [(''id'', JStr (p_id p)),
           (''title'', JStr (title p)),
           (''maximum_speed'', JInt (maximum_speed p)),
           (''in_stock'', JInt (in_stock p)),
           (''passenger_capacity'', JInt (passenger_capacity p))]"

subsection \<open>\<^verbatim>\<open>UpdateProductSchema\<close>\<close>

definition load_UpdateProductSchema :: "json \<Rightarrow> error + update_product_data" where
  "load_UpdateProductSchema j =
     (case j of
        JObj kvs \<Rightarrow>
          (case (missing_None load_Str (map_of kvs ''title''),
                 missing_None load_Int (map_of kvs ''maximum_speed''),
                 missing_None load_Int (map_of kvs ''in_stock''),
                 missing_None load_Int (map_of kvs ''passenger_capacity'')) of
             (Some t, Some m, Some i, Some c) \<Rightarrow>
               Inr \<lparr>upd_title = t, upd_maximum_speed = m,
                    upd_in_stock = i, upd_passenger_capacity = c\<rparr>
           | _ \<Rightarrow> Inl ValidationError)
      | _ \<Rightarrow> Inl ValidationError)"

subsection \<open>\<^verbatim>\<open>CreateOrderDetailSchema\<close> and \<^verbatim>\<open>CreateOrderSchema\<close>\<close>

definition load_CreateOrderDetailSchema :: "json \<Rightarrow> create_order_detail option" where
  "load_CreateOrderDetailSchema j =
     (case j of
        JObj kvs \<Rightarrow>
          (case (required load_Str (map_of kvs ''product_id''),
                 required load_Decimal (map_of kvs ''price''),
                 required load_Int (map_of kvs ''quantity'')) of
             (Some p, Some d, Some q) \<Rightarrow> Some \<lparr>product_id = p, price = d, quantity = q\<rparr>
           | _ \<Rightarrow> None)
      | _ \<Rightarrow> None)"

definition load_CreateOrderSchema :: "json \<Rightarrow> error + create_order_data" where
  "load_CreateOrderSchema j =
     (case j of
        JObj kvs \<Rightarrow>
          (case map_of kvs ''order_details'' of
             Some (JList items) \<Rightarrow>
               (case load_many load_CreateOrderDetailSchema items of
                  None \<Rightarrow> Inl ValidationError
                | Some ds \<Rightarrow> Inr \<lparr>order_details = ds\<rparr>)
           | _ \<Rightarrow> Inl ValidationError)
      | _ \<Rightarrow> Inl ValidationError)"

text \<open>On dump the price is \<^verbatim>\<open>format(Decimal(str(value)), 'f')\<close>; the string of a finite
  \<^verbatim>\<open>Decimal\<close> reads back as the same \<^verbatim>\<open>Decimal\<close>.\<close>

definition dump_CreateOrderDetailSchema :: "create_order_detail \<Rightarrow> json" where
  "dump_CreateOrderDetailSchema item =
     JObj [(''product_id'', JStr (product_id item)),
           (''price'', JStr (format_f (price item))),
           (''quantity'', JInt (quantity item))]"

definition dump_CreateOrderSchema :: "create_order_data \<Rightarrow> json" where
  "dump_CreateOrderSchema order_data =
     JObj [(''order_details'',
            JList (map dump_CreateOrderDetailSchema (order_details order_data)))]"

subsection \<open>\<^verbatim>\<open>GetOrderSchema\<close>\<close>

text \<open>\<^verbatim>\<open>len(data)\<close> and \<^verbatim>\<open>d[key]\<close> on the values of the model.\<close>

fun py_len :: "json \<Rightarrow> error + int" where
  "py_len (JList xs) = Inr (int (length xs))"
| "py_len (JObj kvs) = Inr (int (length kvs))"
| "py_len (JStr s) = Inr (int (length s))"
| "py_len _ = Inl TypeError"

fun getitem :: "json \<Rightarrow> string \<Rightarrow> error + json" where
  "getitem (JObj kvs) k = (case map_of kvs k of None \<Rightarrow> Inl (KeyError k) | Some v \<Rightarrow> Inr v)"
| "getitem _ k = Inl TypeError"

text \<open>The \<^verbatim>\<open>post_dump(pass_many=True)\<close> hook of \<^verbatim>\<open>GetOrderSchema\<close>.\<close>

definition wrap_with_count :: "json \<Rightarrow> bool \<Rightarrow> error + json" where
  "wrap_with_count data many =
     (if many then
        (case py_len data of
           Inl e \<Rightarrow> Inl e
         | Inr n \<Rightarrow> Inr (JObj [(''count'', JInt n), (''data'', data)]))
      else Inr data)"

text \<open>The nested schema \<^verbatim>\<open>GetOrderSchema.OrderDetail\<close>, which has no hook. The schema
  is not strict: a price that is no decimal is left out.\<close>

definition dump_OrderDetail :: "order_detail \<Rightarrow> json" where
  "dump_OrderDetail item =
     JObj ([(''id'', JInt (detail_id item)),
            (''quantity'', JInt (detail_quantity item)),
            (''product_id'', JStr (detail_product_id item))]
           @ (case detail_image item of None \<Rightarrow> [] | Some s \<Rightarrow> [(''image'', JStr s)])
           @ (case parse_decimal (detail_price item) of
                None \<Rightarrow> []
              | Some d \<Rightarrow> [(''price'', JStr (format_f d))])
           @ (case detail_product item of
                None \<Rightarrow> []
              | Some p \<Rightarrow> [(''product'', dump_CreateProductSchema p)]))"

text \<open>The fields of \<^verbatim>\<open>GetOrderSchema\<close> for one order, before the hook runs.\<close>

definition marshal_GetOrderSchema :: "order \<Rightarrow> json" where
  "marshal_GetOrderSchema order =
     JObj [(''id'', JInt (order_id order)),
           (''order_details'', JList (map dump_OrderDetail (order_lines order)))]"

text \<open>\<^verbatim>\<open>GetOrderSchema().dump(order).data\<close>.\<close>

definition dump_GetOrderSchema :: "order \<Rightarrow> error + json" where
  "dump_GetOrderSchema order = wrap_with_count (marshal_GetOrderSchema order) False"

text \<open>\<^verbatim>\<open>GetOrderSchema(many=True).dump(orders).data\<close>.\<close>

definition dump_many_GetOrderSchema :: "order list \<Rightarrow> error + json" where
  "dump_many_GetOrderSchema orders =
     wrap_with_count (JList (map marshal_GetOrderSchema orders)) True"

section \<open>The gateway service\<close>

text \<open>
  A request carries the query arguments (\<^verbatim>\<open>request.args\<close>, a multi-dict whose
  \<^verbatim>\<open>get\<close> returns the first value of a key) and its body as \<^verbatim>\<open>json.loads\<close> sees it:
  \<open>Inl msg\<close> when the text is no JSON document and \<^verbatim>\<open>json.loads\<close> raises a
  \<^verbatim>\<open>ValueError\<close> with the message \<open>msg\<close>, else \<open>Inr\<close> of the decoded value.
\<close>

record request =
  args :: "(string \<times> string) list"
  data :: "string + json"

datatype http_status = OK | CREATED

text \<open>A \<^verbatim>\<open>werkzeug.Response\<close>; \<open>body\<close> is the value whose JSON text is sent.\<close>

record response =
  body :: json
  status :: http_status
  mimetype :: string

text \<open>The nameko configuration, a dict.\<close>

type_synonym config = "string \<rightharpoonup> string"

text \<open>What a handler yields: the response or the exception, and the remote calls it
  issued, in order.\<close>

type_synonym 'a outcome = "(error + 'a) \<times> rpc_call list"

subsection \<open>\<^verbatim>\<open>update_product\<close>\<close>

definition update_product :: "backend \<Rightarrow> request \<Rightarrow> string \<Rightarrow> response outcome" where
  "update_product be req product_ident =
     (case data req of
        Inl exc \<Rightarrow> (Inl (BadRequest (''Invalid json: '' @ exc)), [])
      | Inr j \<Rightarrow>
          (case load_UpdateProductSchema j of
             Inl e \<Rightarrow> (Inl e, [])
           | Inr product_data \<Rightarrow>
               (case products_update be product_ident product_data of
                  Inl e \<Rightarrow> (Inl e, [ProductsUpdate product_ident product_data])
                | Inr _ \<Rightarrow>
                    (Inr \<lparr>body = JObj [(''id'', JStr product_ident)], status = OK,
                          mimetype = ''application/json''\<rparr>,
                     [ProductsUpdate product_ident product_data]))))"

subsection \<open>\<^verbatim>\<open>get_order\<close> and \<^verbatim>\<open>_get_order\<close>\<close>

text \<open>
  The loop of \<^verbatim>\<open>_get_order\<close> over \<^verbatim>\<open>order['order_details']\<close>: one \<^verbatim>\<open>products_rpc.get\<close> for
  each line, in order; the first call that raises ends the loop.
\<close>

fun enhance_order_details ::
  "backend \<Rightarrow> string \<Rightarrow> order_detail list \<Rightarrow> order_detail list outcome" where
  "enhance_order_details be image_root [] = (Inr [], [])"
| "enhance_order_details be image_root (item # items) =
     (case products_get be (detail_product_id item) of
        Inl e \<Rightarrow> (Inl e, [ProductsGet (detail_product_id item)])
      | Inr p \<Rightarrow>
          (let item' = item\<lparr>detail_product := Some p,
                            detail_image :=
                              Some (image_root @ ''/'' @ detail_product_id item @ ''.jpg'')\<rparr>
           in case enhance_order_details be image_root items of
                (Inl e, calls) \<Rightarrow> (Inl e, ProductsGet (detail_product_id item) # calls)
              | (Inr items', calls) \<Rightarrow>
                  (Inr (item' # items'), ProductsGet (detail_product_id item) # calls)))"

text \<open>The method \<^verbatim>\<open>_get_order\<close>.\<close>

definition get_order_internal :: "backend \<Rightarrow> config \<Rightarrow> int \<Rightarrow> order outcome" where
  "get_order_internal be cfg ident =
     (case orders_get_order be ident of
        Inl e \<Rightarrow> (Inl e, [OrdersGetOrder ident])
      | Inr order \<Rightarrow>
          (case cfg ''PRODUCT_IMAGE_ROOT'' of
             None \<Rightarrow> (Inl (KeyError ''PRODUCT_IMAGE_ROOT''), [OrdersGetOrder ident])
           | Some image_root \<Rightarrow>
               (case enhance_order_details be image_root (order_lines order) of
                  (Inl e, calls) \<Rightarrow> (Inl e, OrdersGetOrder ident # calls)
                | (Inr items, calls) \<Rightarrow>
                    (Inr (order\<lparr>order_lines := items\<rparr>), OrdersGetOrder ident # calls))))"

definition get_order :: "backend \<Rightarrow> config \<Rightarrow> request \<Rightarrow> int \<Rightarrow> response outcome" where
  "get_order be cfg req ident =
     (case get_order_internal be cfg ident of
        (Inl e, calls) \<Rightarrow> (Inl e, calls)
      | (Inr order, calls) \<Rightarrow>
          (case dump_GetOrderSchema order of
             Inl e \<Rightarrow> (Inl e, calls)
           | Inr d \<Rightarrow>
               (Inr \<lparr>body = d, status = OK, mimetype = ''application/json''\<rparr>, calls)))"

subsection \<open>\<^verbatim>\<open>list_orders\<close>\<close>

text \<open>\<^verbatim>\<open>int(request.args.get(key, default))\<close>: the default is an integer already.\<close>

definition int_arg :: "request \<Rightarrow> string \<Rightarrow> int \<Rightarrow> error + int" where
  "int_arg req key dflt =
     (case map_of (args req) key of None \<Rightarrow> Inr dflt | Some s \<Rightarrow> py_int s)"

definition list_orders :: "backend \<Rightarrow> request \<Rightarrow> response outcome" where
  "list_orders be req =
     (case int_arg req ''p'' 1 of
        Inl e \<Rightarrow> (Inl e, [])
      | Inr page \<Rightarrow>
          (case int_arg req ''per_page'' 10 of
             Inl e \<Rightarrow> (Inl e, [])
           | Inr per_page \<Rightarrow>
               (case orders_list_orders be page per_page of
                  Inl e \<Rightarrow> (Inl e, [OrdersListOrders page per_page])
                | Inr orders \<Rightarrow>
                    (case dump_many_GetOrderSchema orders of
                       Inl e \<Rightarrow> (Inl e, [OrdersListOrders page per_page])
                     | Inr d \<Rightarrow>
                         (Inr \<lparr>body = d, status = OK, mimetype = ''application/json''\<rparr>,
                          [OrdersListOrders page per_page])))))"

subsection \<open>\<^verbatim>\<open>create_order\<close> and \<^verbatim>\<open>_create_order\<close>\<close>

text \<open>
  The loop of \<^verbatim>\<open>_create_order\<close> that checks the product ids: one
  \<^verbatim>\<open>products_rpc.exists\<close> for each line, in order, until one answers false (or raises).
\<close>

fun check_product_ids :: "backend \<Rightarrow> create_order_detail list \<Rightarrow> unit outcome" where
  "check_product_ids be [] = (Inr (), [])"
| "check_product_ids be (item # items) =
     (case products_exists be (product_id item) of
        Inl e \<Rightarrow> (Inl e, [ProductsExists (product_id item)])
      | Inr found \<Rightarrow>
          if \<not> found then
            (Inl (ProductNotFound (''Product Id '' @ product_id item)),
             [ProductsExists (product_id item)])
          else
            (case check_product_ids be items of
               (r, calls) \<Rightarrow> (r, ProductsExists (product_id item) # calls)))"

text \<open>The method \<^verbatim>\<open>_create_order\<close>.\<close>

definition create_order_internal :: "backend \<Rightarrow> create_order_data \<Rightarrow> int outcome" where
  "create_order_internal be order_data =
     (case check_product_ids be (order_details order_data) of
        (Inl e, calls) \<Rightarrow> (Inl e, calls)
      | (Inr _, calls) \<Rightarrow>
          (case getitem (dump_CreateOrderSchema order_data) ''order_details'' of
             Inl e \<Rightarrow> (Inl e, calls)
           | Inr serialized \<Rightarrow>
               (case orders_create_order be serialized of
                  Inl e \<Rightarrow> (Inl e, calls @ [OrdersCreateOrder serialized])
                | Inr result \<Rightarrow>
                    (Inr (result_id result), calls @ [OrdersCreateOrder serialized]))))"

definition create_order :: "backend \<Rightarrow> request \<Rightarrow> response outcome" where
  "create_order be req =
     (case data req of
        Inl exc \<Rightarrow> (Inl (BadRequest (''Invalid json: '' @ exc)), [])
      | Inr j \<Rightarrow>
          (case load_CreateOrderSchema j of
             Inl e \<Rightarrow> (Inl e, [])
           | Inr order_data \<Rightarrow>
               (case create_order_internal be order_data of
                  (Inl e, calls) \<Rightarrow> (Inl e, calls)
                | (Inr ident, calls) \<Rightarrow>
                    (Inr \<lparr>body = JObj [(''id'', JInt ident)], status = CREATED,
                          mimetype = ''application/json''\<rparr>,
                     calls))))"

section \<open>The services behind the proxies\<close>

text \<open>
  The products and orders services belong to the repository but not to the gateway's
  sources. Where a property depends on what they store, they are modelled from the
  specification: a product catalogue keyed by product id and a list of orders.
\<close>

text \<open>Modelled from the spec: the persistent state of the products and orders
  backends, which are absent from the sources; the gateway itself holds none.\<close>

record services =
  products :: "string \<rightharpoonup> product"
  orders :: "order list"

text \<open>\<^verbatim>\<open>str(i)\<close> for an integer.\<close>

definition str_int :: "int \<Rightarrow> string" where
  "str_int i = (if i < 0 then CHR ''-'' # digits_of_nat (nat (- i)) else digits_of_nat (nat i))"

text \<open>Modelled from the spec: \<^verbatim>\<open>Products.get(id)\<close> of the absent products backend, which
  returns the product or fails with a not-found error carrying the id.\<close>

definition products_service_get :: "services \<Rightarrow> string \<Rightarrow> error + product" where
  "products_service_get s ident =
     (case products s ident of None \<Rightarrow> Inl (ProductNotFound ident) | Some p \<Rightarrow> Inr p)"

text \<open>Modelled from the spec: \<^verbatim>\<open>Products.exists(id) -> bool\<close> of the absent products
  backend.\<close>

definition products_service_exists :: "services \<Rightarrow> string \<Rightarrow> error + bool" where
  "products_service_exists s ident = Inr (products s ident \<noteq> None)"

text \<open>Modelled from the spec: how the absent products backend applies an update, a
  subset of the updatable fields, all optional. A field the request did not supply
  reaches the backend as \<^verbatim>\<open>None\<close> and is left as it is.\<close>

definition apply_update :: "product \<Rightarrow> update_product_data \<Rightarrow> product" where
  "apply_update p d =
     p\<lparr>title := (case upd_title d of None \<Rightarrow> title p | Some v \<Rightarrow> v),
       maximum_speed := (case upd_maximum_speed d of None \<Rightarrow> maximum_speed p | Some v \<Rightarrow> v),
       in_stock := (case upd_in_stock d of None \<Rightarrow> in_stock p | Some v \<Rightarrow> v),
       passenger_capacity :=
         (case upd_passenger_capacity d of None \<Rightarrow> passenger_capacity p | Some v \<Rightarrow> v)\<rparr>"

text \<open>Modelled from the spec: \<^verbatim>\<open>Products.update(id, data)\<close> of the absent products
  backend, which fails with not-found when the id is absent.\<close>

definition products_service_update ::
  "services \<Rightarrow> string \<Rightarrow> update_product_data \<Rightarrow> (error + unit) \<times> services" where
  "products_service_update s ident d =
     (case products s ident of
        None \<Rightarrow> (Inl (ProductNotFound ident), s)
      | Some p \<Rightarrow> (Inr (), s\<lparr>products := (products s)(ident \<mapsto> apply_update p d)\<rparr>))"

text \<open>Modelled from the spec: \<^verbatim>\<open>Orders.get_order(id)\<close> of the absent orders backend, which
  returns the stored order or reports not-found.\<close>

definition orders_service_get_order :: "services \<Rightarrow> int \<Rightarrow> error + order" where
  "orders_service_get_order s ident =
     (case find (\<lambda>order. order_id order = ident) (orders s) of
        None \<Rightarrow> Inl (OrderNotFound (str_int ident))
      | Some order \<Rightarrow> Inr order)"

text \<open>Modelled from the spec: \<^verbatim>\<open>Orders.list_orders(page, size)\<close> of the absent orders
  backend, one page of the stored orders, not enriched.\<close>

definition orders_service_list_orders :: "services \<Rightarrow> int \<Rightarrow> int \<Rightarrow> error + order list" where
  "orders_service_list_orders s page per_page =
     Inr (take (nat per_page) (drop (nat ((page - 1) * per_page)) (orders s)))"

text \<open>Modelled from the spec: the lines the absent orders backend stores for a new
  order, each with a line identity, the quantity, the product id and the price as the
  decimal string it received.\<close>

fun stored_details :: "int \<Rightarrow> json list \<Rightarrow> order_detail list option" where
  "stored_details n [] = Some []"
| "stored_details n (j # js) =
     (case j of
        JObj kvs \<Rightarrow>
          (case (map_of kvs ''product_id'', map_of kvs ''price'', map_of kvs ''quantity'') of
             (Some (JStr p), Some (JStr c), Some (JInt q)) \<Rightarrow>
               (case stored_details (n + 1) js of
                  None \<Rightarrow> None
                | Some ds \<Rightarrow>
                    Some (\<lparr>detail_id = n, detail_quantity = q, detail_product_id = p,
                           detail_image = None, detail_price = c, detail_product = None\<rparr> # ds))
           | _ \<Rightarrow> None)
      | _ \<Rightarrow> None)"

text \<open>Modelled from the spec: the order identity the absent orders backend assigns, an
  integer no stored order has.\<close>

definition fresh_order_id :: "order list \<Rightarrow> int" where
  "fresh_order_id os = Max (set (0 # map order_id os)) + 1"

text \<open>Modelled from the spec: \<^verbatim>\<open>Orders.create_order(lines) -> {id}\<close> of the absent orders
  backend, which stores the order and returns the newly assigned identity.\<close>

definition orders_service_create_order ::
  "services \<Rightarrow> json \<Rightarrow> (error + create_order_result) \<times> services" where
  "orders_service_create_order s lines =
     (case lines of
        JList js \<Rightarrow>
          (case stored_details 1 js of
             None \<Rightarrow> (Inl (RemoteError ''order_details''), s)
           | Some ds \<Rightarrow>
               (Inr \<lparr>result_id = fresh_order_id (orders s)\<rparr>,
                s\<lparr>orders := orders s @
                     [\<lparr>order_id = fresh_order_id (orders s), order_lines = ds\<rparr>]\<rparr>))
      | _ \<Rightarrow> (Inl (RemoteError ''order_details''), s))"

text \<open>The replies the proxies give while the services are in state \<open>s\<close>.\<close>

definition serve :: "services \<Rightarrow> backend" where
  "serve s =
     \<lparr>products_get = products_service_get s,
      products_exists = products_service_exists s,
      products_update = (\<lambda>ident d. fst (products_service_update s ident d)),
      orders_get_order = orders_service_get_order s,
      orders_list_orders = orders_service_list_orders s,
      orders_create_order = (\<lambda>lines. fst (orders_service_create_order s lines))\<rparr>"

text \<open>What a call leaves behind in the services.\<close>

fun commit :: "services \<Rightarrow> rpc_call \<Rightarrow> services" where
  "commit s (ProductsUpdate ident d) = snd (products_service_update s ident d)"
| "commit s (OrdersCreateOrder lines) = snd (orders_service_create_order s lines)"
| "commit s _ = s"

text \<open>
  One request against the services: the handler sees the replies of the state it starts
  in, and its calls are then applied in order. A handler of the gateway issues at most
  one call that changes a service, and issues it last, so the replies it saw are the
  ones the services gave.
\<close>

definition run :: "(backend \<Rightarrow> 'a outcome) \<Rightarrow> services \<Rightarrow> (error + 'a) \<times> services" where
  "run handler s = (case handler (serve s) of (r, calls) \<Rightarrow> (r, foldl commit s calls))"

section \<open>Sample data\<close>

definition sample_product :: product where
  "sample_product =
     \<lparr>p_id = ''p1'', title = ''The Odyssey'', maximum_speed = 5, in_stock = 10,
      passenger_capacity = 101\<rparr>"

definition sample_order :: order where
  "sample_order =
     \<lparr>order_id = 1,
      order_lines =
        [\<lparr>detail_id = 1, detail_quantity = 2, detail_product_id = ''p1'',
          detail_image = None, detail_price = ''9.99'', detail_product = None\<rparr>]\<rparr>"

text \<open>An order with a line whose product has been deleted since.\<close>

definition stale_order :: order where
  "stale_order =
     \<lparr>order_id = 2,
      order_lines =
        [\<lparr>detail_id = 1, detail_quantity = 1, detail_product_id = ''p1'',
          detail_image = None, detail_price = ''5.00'', detail_product = None\<rparr>,
         \<lparr>detail_id = 2, detail_quantity = 3, detail_product_id = ''gone'',
          detail_image = None, detail_price = ''1.50'', detail_product = None\<rparr>]\<rparr>"

definition sample_backend :: backend where
  "sample_backend =
     \<lparr>products_get =
        (\<lambda>ident. if ident = ''p1'' then Inr sample_product else Inl (ProductNotFound ident)),
      products_exists = (\<lambda>ident. Inr (ident = ''p1'')),
      products_update =
        (\<lambda>ident d. if ident = ''p1'' then Inr () else Inl (ProductNotFound ident)),
      orders_get_order =
        (\<lambda>ident. if ident = 1 then Inr sample_order
                  else if ident = 2 then Inr stale_order
                  else Inl (OrderNotFound (str_int ident))),
      orders_list_orders = (\<lambda>page per_page. Inr [sample_order, stale_order]),
      orders_create_order = (\<lambda>lines. Inr \<lparr>result_id = 7\<rparr>)\<rparr>"

definition sample_config :: config where
  "sample_config = [''PRODUCT_IMAGE_ROOT'' \<mapsto> ''http://img'']"

definition sample_services :: services where
  "sample_services = \<lparr>products = [''p1'' \<mapsto> sample_product], orders = []\<rparr>"

definition sample_detail :: "string \<Rightarrow> create_order_detail" where
  "sample_detail ident =
     \<lparr>product_id = ident,
      price = \<lparr>dec_sign = False, dec_int = 999, dec_exp = - 2\<rparr>,
      quantity = 2\<rparr>"

section \<open>Auxiliary facts\<close>

lemma parse_decimal_9_99:
  "parse_decimal ''9.99'' = Some \<lparr>dec_sign = False, dec_int = 999, dec_exp = - 2\<rparr>"
  by code_simp

lemma format_f_9_99:
  "format_f \<lparr>dec_sign = False, dec_int = 999, dec_exp = - 2\<rparr> = ''9.99''"
  by code_simp

lemma py_int_error: "py_int s = Inl e \<Longrightarrow> e = ValueError s"
  by (auto simp: py_int_def Let_def split: if_splits prod.splits)

lemma find_append_None: "find P xs = None \<Longrightarrow> find P (xs @ ys) = find P ys"
  by (induction xs) (auto split: if_splits)

lemma find_fresh_order_id:
  "find (\<lambda>order. order_id order = fresh_order_id os)
        (os @ [\<lparr>order_id = fresh_order_id os, order_lines = ds\<rparr>])
     = Some \<lparr>order_id = fresh_order_id os, order_lines = ds\<rparr>"
proof -
  have "\<forall>order \<in> set os. order_id order \<noteq> fresh_order_id os"
  proof
    fix order assume "order \<in> set os"
    then have "order_id order \<le> Max (set (0 # map order_id os))"
      by (intro Max_ge) auto
    then show "order_id order \<noteq> fresh_order_id os" by (simp add: fresh_order_id_def)
  qed
  then have "find (\<lambda>order. order_id order = fresh_order_id os) os = None"
    by (simp add: find_None_iff)
  then show ?thesis by (simp add: find_append_None)
qed

subsection \<open>The existence checks of \<^verbatim>\<open>_create_order\<close>\<close>

lemma check_product_ids_calls:
  "c \<in> set (snd (check_product_ids be items)) \<Longrightarrow> is_products_exists c"
  by (induction items) (auto split: sum.splits if_splits prod.splits)

lemma check_product_ids_no_create:
  "\<not> list_ex is_create_order (snd (check_product_ids be items))"
proof
  assume "list_ex is_create_order (snd (check_product_ids be items))"
  then obtain c where "c \<in> set (snd (check_product_ids be items))" "is_create_order c"
    by (auto simp: list_ex_iff)
  with check_product_ids_calls [of c be items] show False
    by (cases c) auto
qed


lemma check_product_ids_fails:
  "\<exists>item \<in> set items. products_exists be (product_id item) = Inr False \<Longrightarrow>
   \<exists>e. fst (check_product_ids be items) = Inl e"
proof (induction items)
  case Nil
  then show ?case by simp
next
  case (Cons a items)
  show ?case
  proof (cases "products_exists be (product_id a) = Inr True")
    case True
    with Cons.prems have "\<exists>item \<in> set items. products_exists be (product_id item) = Inr False"
      by auto
    from Cons.IH [OF this] True show ?thesis by (auto split: prod.splits)
  next
    case False
    then show ?thesis by (cases "products_exists be (product_id a)") auto
  qed
qed

lemma check_product_ids_missing:
  "\<forall>item \<in> set items. \<exists>b. products_exists be (product_id item) = Inr b \<Longrightarrow>
   \<exists>item \<in> set items. products_exists be (product_id item) = Inr False \<Longrightarrow>
   \<exists>item \<in> set items. products_exists be (product_id item) = Inr False \<and>
      fst (check_product_ids be items) = Inl (ProductNotFound (''Product Id '' @ product_id item))"
proof (induction items)
  case Nil
  then show ?case by simp
next
  case (Cons a items)
  show ?case
  proof (cases "products_exists be (product_id a) = Inr False")
    case True
    then show ?thesis by auto
  next
    case False
    with Cons.prems(1) have a: "products_exists be (product_id a) = Inr True" by auto
    with Cons.prems have "\<exists>item \<in> set items. products_exists be (product_id item) = Inr False"
      by auto
    with Cons.IH Cons.prems(1) obtain item where
      "item \<in> set items" "products_exists be (product_id item) = Inr False"
      "fst (check_product_ids be items) = Inl (ProductNotFound (''Product Id '' @ product_id item))"
      by auto
    with a show ?thesis by (auto split: prod.splits)
  qed
qed

lemma create_order_internal_check_fails:
  "fst (check_product_ids be (order_details od)) = Inl e \<Longrightarrow>
   create_order_internal be od = (Inl e, snd (check_product_ids be (order_details od)))"
  by (cases "check_product_ids be (order_details od)") (auto simp: create_order_internal_def)


subsection \<open>The enrichment loop of \<^verbatim>\<open>_get_order\<close>\<close>

lemma enhance_order_details_ok:
  "\<forall>item \<in> set items. \<exists>p. products_get be (detail_product_id item) = Inr p \<Longrightarrow>
   \<exists>items'. enhance_order_details be root items
       = (Inr items', map (\<lambda>item. ProductsGet (detail_product_id item)) items) \<and>
     map (\<lambda>item. item\<lparr>detail_product := None, detail_image := None\<rparr>) items'
       = map (\<lambda>item. item\<lparr>detail_product := None, detail_image := None\<rparr>) items \<and>
     (\<forall>item' \<in> set items'.
        (\<exists>p. detail_product item' = Some p \<and> products_get be (detail_product_id item') = Inr p) \<and>
        detail_image item' = Some (root @ ''/'' @ detail_product_id item' @ ''.jpg''))"
proof (induction items)
  case Nil
  then show ?case by simp
next
  case (Cons a items)
  then obtain p where p: "products_get be (detail_product_id a) = Inr p" by auto
  from Cons obtain items' where
    IH: "enhance_order_details be root items
       = (Inr items', map (\<lambda>item. ProductsGet (detail_product_id item)) items)"
     "map (\<lambda>item. item\<lparr>detail_product := None, detail_image := None\<rparr>) items'
       = map (\<lambda>item. item\<lparr>detail_product := None, detail_image := None\<rparr>) items"
     "\<forall>item' \<in> set items'.
        (\<exists>p. detail_product item' = Some p \<and> products_get be (detail_product_id item') = Inr p) \<and>
        detail_image item' = Some (root @ ''/'' @ detail_product_id item' @ ''.jpg'')"
    by auto
  show ?case using p IH by (simp add: Let_def)
qed

lemma enhance_order_details_fails:
  "\<exists>item \<in> set items. \<exists>e. products_get be (detail_product_id item) = Inl e \<Longrightarrow>
   \<exists>item \<in> set items. \<exists>e. products_get be (detail_product_id item) = Inl e \<and>
      fst (enhance_order_details be root items) = Inl e"
proof (induction items)
  case Nil
  then show ?case by simp
next
  case (Cons a items)
  show ?case
  proof (cases "products_get be (detail_product_id a)")
    case (Inl e)
    then show ?thesis by auto
  next
    case (Inr p)
    with Cons.prems have "\<exists>item \<in> set items. \<exists>e. products_get be (detail_product_id item) = Inl e"
      by auto
    from Cons.IH [OF this] obtain item e where
      "item \<in> set items" "products_get be (detail_product_id item) = Inl e"
      "fst (enhance_order_details be root items) = Inl e" by blast
    with Inr show ?thesis
      by (cases "enhance_order_details be root items") (auto simp: Let_def)
  qed
qed

subsection \<open>The count wrapper\<close>

lemma dump_many_GetOrderSchema_eq:
  "dump_many_GetOrderSchema os =
     Inr (JObj [(''count'', JInt (int (length os))),
                (''data'', JList (map marshal_GetOrderSchema os))])"
  by (simp add: dump_many_GetOrderSchema_def wrap_with_count_def)

lemma dump_GetOrderSchema_eq:
  "dump_GetOrderSchema order = Inr (marshal_GetOrderSchema order)"
  by (simp add: dump_GetOrderSchema_def wrap_with_count_def)

subsection \<open>Replies of the sample backend\<close>

lemma sample_backend_simps:
  "products_exists sample_backend ident = Inr (ident = ''p1'')"
  "products_get sample_backend ident =
     (if ident = ''p1'' then Inr sample_product else Inl (ProductNotFound ident))"
  "orders_create_order sample_backend lines = Inr \<lparr>result_id = 7\<rparr>"
  "orders_list_orders sample_backend page per_page = Inr [sample_order, stale_order]"
  "orders_get_order sample_backend 1 = Inr sample_order"
  "orders_get_order sample_backend 2 = Inr stale_order"
  by (simp_all add: sample_backend_def)

subsection \<open>Decimal strings\<close>

lemma digit_chars: "map digit_char [0, 1, 2, 3, 4, 5, 6, 7, 8, 9] = ''0123456789''"
  by code_simp

lemma is_digit_digit_char: "n < 10 \<Longrightarrow> is_digit (digit_char n)"
proof -
  assume "n < 10"
  then have "n \<in> set [0, 1, 2, 3, 4, 5, 6, 7, 8, 9]" by auto
  then have "digit_char n \<in> set (map digit_char [0, 1, 2, 3, 4, 5, 6, 7, 8, 9])"
    unfolding set_map by (rule imageI)
  then show ?thesis unfolding digit_chars is_digit_def .
qed

lemma digit_val_digit_char: "n < 10 \<Longrightarrow> digit_val (digit_char n) = n"
  by (simp add: digit_val_def digit_char_def)

lemma is_digit_zero: "is_digit CHR ''0''"
  by (simp add: is_digit_def)

lemma digit_val_zero: "digit_val CHR ''0'' = 0"
  by (simp add: digit_val_def)

lemma is_digit_plain:
  "is_digit c \<Longrightarrow>
   \<not> is_space c \<and> c \<noteq> CHR ''_'' \<and> c \<noteq> CHR ''-'' \<and> c \<noteq> CHR ''+'' \<and> c \<noteq> CHR ''.''"
  by (auto simp: is_digit_def is_space_def)

lemma not_is_digit_dot: "\<not> is_digit CHR ''.''"
  by (simp add: is_digit_def)

lemma nat_of_digits_snoc: "nat_of_digits (ds @ [c]) = 10 * nat_of_digits ds + digit_val c"
  by (simp add: nat_of_digits_def)

lemma nat_of_digits_zeros: "nat_of_digits (replicate k CHR ''0'') = 0"
proof (induction k)
  case 0
  then show ?case by (simp add: nat_of_digits_def)
next
  case (Suc k)
  have "replicate (Suc k) CHR ''0'' = replicate k CHR ''0'' @ [CHR ''0'']"
    by (simp add: replicate_append_same)
  then have "nat_of_digits (replicate (Suc k) CHR ''0'')
     = 10 * nat_of_digits (replicate k CHR ''0'') + digit_val CHR ''0''"
    by (simp only: nat_of_digits_snoc)
  with Suc show ?case by (simp add: digit_val_zero)
qed

lemma nat_of_digits_leading_zeros:
  "nat_of_digits (replicate k CHR ''0'' @ ds) = nat_of_digits ds"
  by (simp add: nat_of_digits_def nat_of_digits_zeros [unfolded nat_of_digits_def])

lemma nat_of_digits_leading_zero: "nat_of_digits (CHR ''0'' # ds) = nat_of_digits ds"
  using nat_of_digits_leading_zeros [of 1 ds] by simp

lemma nat_of_digits_trailing_zeros:
  "nat_of_digits (ds @ replicate k CHR ''0'') = nat_of_digits ds * 10 ^ k"
proof (induction k)
  case 0
  then show ?case by simp
next
  case (Suc k)
  have "ds @ replicate (Suc k) CHR ''0'' = (ds @ replicate k CHR ''0'') @ [CHR ''0'']"
    by (simp add: replicate_append_same)
  then have "nat_of_digits (ds @ replicate (Suc k) CHR ''0'')
     = 10 * nat_of_digits (ds @ replicate k CHR ''0'') + digit_val CHR ''0''"
    by (simp only: nat_of_digits_snoc)
  with Suc show ?case by (simp add: digit_val_zero)
qed

lemma digits_of_nat_digits: "list_all is_digit (digits_of_nat n)"
proof (induction n rule: digits_of_nat.induct)
  case (1 n)
  show ?case
  proof (cases "n < 10")
    case True
    then show ?thesis by (simp add: digits_of_nat.simps [of n] is_digit_digit_char)
  next
    case False
    with 1 show ?thesis
      by (simp add: digits_of_nat.simps [of n] is_digit_digit_char)
  qed
qed

lemma digits_of_nat_not_Nil: "digits_of_nat n \<noteq> []"
  by (simp add: digits_of_nat.simps [of n])

lemma nat_of_digits_of_nat: "nat_of_digits (digits_of_nat n) = n"
proof (induction n rule: digits_of_nat.induct)
  case (1 n)
  show ?case
  proof (cases "n < 10")
    case True
    then show ?thesis
      by (simp add: digits_of_nat.simps [of n] nat_of_digits_def digit_val_digit_char)
  next
    case False
    with 1 have "nat_of_digits (digits_of_nat (n div 10)) = n div 10" by simp
    with False show ?thesis
      by (simp add: digits_of_nat.simps [of n] nat_of_digits_snoc digit_val_digit_char)
  qed
qed

lemma digits_of_nat_times_10:
  "0 < n \<Longrightarrow> digits_of_nat (n * 10) = digits_of_nat n @ ''0''"
proof -
  assume "0 < n"
  then have "\<not> n * 10 < 10" by simp
  then have "digits_of_nat (n * 10)
     = digits_of_nat ((n * 10) div 10) @ [digit_char ((n * 10) mod 10)]"
    by (simp add: digits_of_nat.simps [of "n * 10"])
  also have "\<dots> = digits_of_nat n @ [digit_char 0]" by simp
  also have "digit_char 0 = CHR ''0''" using digit_chars by simp
  finally show ?thesis by simp
qed

lemma digits_of_nat_times_power:
  "0 < n \<Longrightarrow> digits_of_nat (n * 10 ^ k) = digits_of_nat n @ replicate k CHR ''0''"
proof (induction k)
  case 0
  then show ?case by simp
next
  case (Suc k)
  then have pos: "0 < n * 10 ^ k" by simp
  have "n * 10 ^ Suc k = n * 10 ^ k * 10" by simp
  then have "digits_of_nat (n * 10 ^ Suc k) = digits_of_nat (n * 10 ^ k) @ ''0''"
    by (simp only: digits_of_nat_times_10 [OF pos])
  also have "\<dots> = (digits_of_nat n @ replicate k CHR ''0'') @ ''0''"
    using Suc by simp
  finally show ?case by (simp add: replicate_append_same)
qed

lemma strip_plain:
  assumes "s \<noteq> []" "\<not> is_space (hd s)" "\<not> is_space (last s)"
  shows "strip s = s"
proof -
  have "dropWhile is_space s = s" using assms by (simp add: dropWhile_eq_self_iff)
  moreover have "dropWhile is_space (rev s) = rev s"
    using assms by (simp add: dropWhile_eq_self_iff hd_rev)
  ultimately show ?thesis by (simp add: strip_def)
qed

text \<open>A literal in plain notation, as \<open>format_f\<close> writes it, reads back as its sign, its
  digits and the number of its fractional digits.\<close>

lemma parse_decimal_plain:
  assumes ip: "ip \<noteq> []" "list_all is_digit ip" and fp: "list_all is_digit fp"
    and tail: "tail = (if fp = [] then [] else CHR ''.'' # fp)"
    and sg: "sg = (if neg then ''-'' else [])"
  shows "parse_decimal (sg @ ip @ tail)
     = Some \<lparr>dec_sign = neg, dec_int = nat_of_digits (ip @ fp),
             dec_exp = - int (length fp)\<rparr>"
proof -
  from ip obtain c cs where ipc: "ip = c # cs" by (cases ip) auto
  with ip have c: "is_digit c" by simp
  have punct: "\<not> is_space CHR ''-''" "\<not> is_space CHR ''.''"
    by (simp_all add: is_space_def)
  have all: "\<forall>x \<in> set (sg @ ip @ tail). \<not> is_space x \<and> x \<noteq> CHR ''_''"
  proof
    fix x assume "x \<in> set (sg @ ip @ tail)"
    then have "x \<in> set sg \<or> x \<in> set ip \<or> x \<in> set tail" by simp
    then have "x = CHR ''-'' \<or> x = CHR ''.'' \<or> is_digit x"
      using ip(2) fp by (auto simp: tail sg list_all_iff split: if_splits)
    then show "\<not> is_space x \<and> x \<noteq> CHR ''_''"
      using punct is_digit_plain [of x] by auto
  qed
  have ne: "sg @ ip @ tail \<noteq> []" using ip by simp
  from ne have "hd (sg @ ip @ tail) \<in> set (sg @ ip @ tail)" by (rule hd_in_set)
  moreover from ne have "last (sg @ ip @ tail) \<in> set (sg @ ip @ tail)" by (rule last_in_set)
  ultimately have "\<not> is_space (hd (sg @ ip @ tail))" "\<not> is_space (last (sg @ ip @ tail))"
    using all by blast+
  with ne have strip: "strip (sg @ ip @ tail) = sg @ ip @ tail" by (rule strip_plain)
  have filt: "filter (\<lambda>c. c \<noteq> CHR ''_'') (sg @ ip @ tail) = sg @ ip @ tail"
    using all by (simp only: filter_id_conv) blast
  have tl_nd: "tail = [] \<or> \<not> is_digit (hd tail)"
    by (simp add: tail not_is_digit_dot)
  have tw: "takeWhile is_digit (ip @ tail) = ip"
    using ip(2) tl_nd by (cases tail) (auto simp: takeWhile_append2 list_all_iff)
  have dw: "dropWhile is_digit (ip @ tail) = tail"
    using ip(2) tl_nd by (cases tail) (auto simp: dropWhile_append2 list_all_iff)
  have twf: "takeWhile is_digit fp = fp" "dropWhile is_digit fp = []"
    using fp by (simp_all add: list_all_iff)
  have sign: "(case sg @ ip @ tail of
               c # r' \<Rightarrow>
                 if c = CHR ''-'' then (True, r')
                 else if c = CHR ''+'' then (False, r')
                 else (False, sg @ ip @ tail)
             | [] \<Rightarrow> (False, sg @ ip @ tail)) = (neg, ip @ tail)"
    using is_digit_plain [OF c] by (simp add: ipc sg)
  have frac: "(case tail of
               c # r' \<Rightarrow>
                 if c = CHR ''.'' then (takeWhile is_digit r', dropWhile is_digit r')
                 else ([], tail)
             | [] \<Rightarrow> ([], tail)) = (fp, [])"
    by (simp add: tail twf)
  show ?thesis
    unfolding parse_decimal_def strip filt Let_def sign prod.case tw dw frac
    by (simp add: parse_exponent_def ip)
qed

lemma format_f_layout:
  assumes e: "e = (if dec_int d = 0 \<and> 0 < dec_exp d then 0 else dec_exp d)"
    and ds: "ds = digits_of_nat (dec_int d)"
    and dp: "dp = e + int (length ds)"
    and sg: "sg = (if dec_sign d then ''-'' else [])"
  shows "dp < 0 \<Longrightarrow>
           format_f d = sg @ ''0'' @ (CHR ''.'' # replicate (nat (- dp)) CHR ''0'' @ ds)"
    and "int (length ds) < dp \<Longrightarrow>
           format_f d = sg @ (ds @ replicate (nat (dp - int (length ds))) CHR ''0'') @ []"
    and "0 \<le> dp \<Longrightarrow> dp \<le> int (length ds) \<Longrightarrow>
           format_f d = sg @ (if take (nat dp) ds = [] then ''0'' else take (nat dp) ds) @
                        (if drop (nat dp) ds = [] then [] else CHR ''.'' # drop (nat dp) ds)"
proof -
  have f: "format_f d =
     (let (intpart, fracpart) =
            (if dp < 0 then (''0'', replicate (nat (- dp)) CHR ''0'' @ ds)
             else if dp > int (length ds)
               then (ds @ replicate (nat (dp - int (length ds))) CHR ''0'', [])
             else ((if take (nat dp) ds = [] then ''0'' else take (nat dp) ds),
                   drop (nat dp) ds))
      in sg @ intpart @ (if fracpart = [] then [] else CHR ''.'' # fracpart))"
    unfolding format_f_def Let_def e ds dp sg by (rule refl)
  have ne: "ds \<noteq> []" unfolding ds by (rule digits_of_nat_not_Nil)
  show "dp < 0 \<Longrightarrow>
           format_f d = sg @ ''0'' @ (CHR ''.'' # replicate (nat (- dp)) CHR ''0'' @ ds)"
    using ne by (simp add: f)
  show "int (length ds) < dp \<Longrightarrow>
           format_f d = sg @ (ds @ replicate (nat (dp - int (length ds))) CHR ''0'') @ []"
    by (simp add: f)
  show "0 \<le> dp \<Longrightarrow> dp \<le> int (length ds) \<Longrightarrow>
           format_f d = sg @ (if take (nat dp) ds = [] then ''0'' else take (nat dp) ds) @
                        (if drop (nat dp) ds = [] then [] else CHR ''.'' # drop (nat dp) ds)"
    by (simp add: f)
qed

text \<open>
  The price string the gateway writes reads back as a decimal that is written as the
  same string: a price dumped on creation and dumped again on retrieval does not change.
\<close>

lemma format_f_stable:
  "\<exists>d'. parse_decimal (format_f d) = Some d' \<and> format_f d' = format_f d"
proof -
  define n where "n = dec_int d"
  define e where "e = (if dec_int d = 0 \<and> 0 < dec_exp d then 0 else dec_exp d)"
  define ds where "ds = digits_of_nat (dec_int d)"
  define dp where "dp = e + int (length ds)"
  define sg where "sg = (if dec_sign d then ''-'' else [])"
  note layout = format_f_layout [OF e_def ds_def dp_def sg_def]
  have dig: "list_all is_digit ds" unfolding ds_def by (rule digits_of_nat_digits)
  have ne: "ds \<noteq> []" unfolding ds_def by (rule digits_of_nat_not_Nil)
  have val: "nat_of_digits ds = n" unfolding ds_def n_def by (rule nat_of_digits_of_nat)
  have Lpos: "0 < int (length ds)" using ne by simp
  have e_cases: "e = dec_exp d \<or> (e = 0 \<and> n = 0 \<and> 0 < dec_exp d)"
    by (simp add: e_def n_def)
  have e_pos: "0 < e \<Longrightarrow> 0 < n \<and> e = dec_exp d"
    by (auto simp: e_def n_def split: if_splits)
  consider (small) "dp < 0" | (big) "int (length ds) < dp"
    | (mid) "0 \<le> dp" "dp \<le> int (length ds)" by linarith
  then show ?thesis
  proof cases
    case small
    define fp where "fp = replicate (nat (- dp)) CHR ''0'' @ ds"
    have fne: "fp \<noteq> []" using ne by (simp add: fp_def)
    have f: "format_f d = sg @ ''0'' @ (CHR ''.'' # fp)"
      using layout(1) [OF small] by (simp add: fp_def)
    have fpd: "list_all is_digit fp"
      using dig by (auto simp: fp_def list_all_iff is_digit_zero)
    have len: "- int (length fp) = e" using small by (simp add: fp_def dp_def)
    have v: "nat_of_digits (''0'' @ fp) = n"
      by (simp add: fp_def nat_of_digits_leading_zero nat_of_digits_leading_zeros val)
    have "e < 0" using small Lpos by (simp add: dp_def)
    with e_cases have e: "e = dec_exp d" by auto
    have "parse_decimal (sg @ ''0'' @ (CHR ''.'' # fp))
       = Some \<lparr>dec_sign = dec_sign d, dec_int = nat_of_digits (''0'' @ fp),
               dec_exp = - int (length fp)\<rparr>"
      by (rule parse_decimal_plain [OF _ _ fpd _ sg_def]) (simp_all add: is_digit_zero fne)
    then have "parse_decimal (format_f d)
       = Some \<lparr>dec_sign = dec_sign d, dec_int = dec_int d, dec_exp = dec_exp d\<rparr>"
      by (simp only: f v len e n_def)
    then have "parse_decimal (format_f d) = Some d" by simp
    then show ?thesis by blast
  next
    case big
    then have "0 < e" by (simp add: dp_def)
    from e_pos [OF this] have npos: "0 < n" and e: "e = dec_exp d" by simp_all
    define ip where "ip = ds @ replicate (nat e) CHR ''0''"
    have k: "nat (dp - int (length ds)) = nat e" by (simp add: dp_def)
    have f: "format_f d = sg @ ip @ []"
      using layout(2) [OF big] by (simp add: ip_def k)
    have ipd: "list_all is_digit ip" and ipn: "ip \<noteq> []"
      using dig ne by (auto simp: ip_def list_all_iff is_digit_zero)
    have "parse_decimal (sg @ ip @ [])
       = Some \<lparr>dec_sign = dec_sign d, dec_int = nat_of_digits (ip @ []),
               dec_exp = - int (length ([]::string))\<rparr>"
      by (rule parse_decimal_plain [OF ipn ipd _ _ sg_def]) simp_all
    then have p: "parse_decimal (format_f d)
       = Some \<lparr>dec_sign = dec_sign d, dec_int = n * 10 ^ nat e, dec_exp = 0\<rparr>"
      by (simp add: f ip_def nat_of_digits_trailing_zeros val)
    have "digits_of_nat (n * 10 ^ nat e) = ip"
      using digits_of_nat_times_power [OF npos, of "nat e"] by (simp add: ip_def ds_def n_def)
    then have "format_f \<lparr>dec_sign = dec_sign d, dec_int = n * 10 ^ nat e, dec_exp = 0\<rparr>
       = sg @ ip"
      using ipn by (simp add: format_f_def Let_def sg_def)
    with f p show ?thesis by simp
  next
    case mid
    define ip where "ip = (if take (nat dp) ds = [] then ''0'' else take (nat dp) ds)"
    define fp where "fp = drop (nat dp) ds"
    define tail where "tail = (if fp = [] then [] else CHR ''.'' # fp)"
    have f: "format_f d = sg @ ip @ tail"
      using layout(3) [OF mid] by (simp add: ip_def fp_def tail_def)
    have ipd: "list_all is_digit ip" and ipn: "ip \<noteq> []"
      using dig by (auto simp: ip_def list_all_iff is_digit_zero dest: in_set_takeD)
    have fpd: "list_all is_digit fp"
      using dig by (auto simp: fp_def list_all_iff dest: in_set_dropD)
    have len: "- int (length fp) = e" using mid by (simp add: fp_def dp_def)
    have "nat_of_digits (ip @ fp) = nat_of_digits ds"
    proof (cases "take (nat dp) ds = []")
      case True
      then have "nat dp = 0" using ne by (cases "nat dp") auto
      then have "fp = ds" by (simp add: fp_def)
      with True show ?thesis by (simp add: ip_def nat_of_digits_leading_zero)
    next
      case False
      then show ?thesis by (simp add: ip_def fp_def)
    qed
    then have v: "nat_of_digits (ip @ fp) = n" by (simp only: val)
    have "parse_decimal (sg @ ip @ tail)
       = Some \<lparr>dec_sign = dec_sign d, dec_int = nat_of_digits (ip @ fp),
               dec_exp = - int (length fp)\<rparr>"
      by (rule parse_decimal_plain [OF ipn ipd fpd tail_def sg_def])
    then have p: "parse_decimal (format_f d)
       = Some \<lparr>dec_sign = dec_sign d, dec_int = dec_int d, dec_exp = e\<rparr>"
      by (simp only: f v len n_def)
    have "format_f \<lparr>dec_sign = dec_sign d, dec_int = dec_int d, dec_exp = e\<rparr> = format_f d"
    proof (cases "e = dec_exp d")
      case True
      have eq: "\<lparr>dec_sign = dec_sign d, dec_int = dec_int d, dec_exp = dec_exp d\<rparr> = d"
        by (cases d) simp
      show ?thesis by (simp only: True eq)
    next
      case False
      with e_cases have z: "e = 0" "dec_int d = 0" "0 < dec_exp d" by (auto simp: n_def)
      have "format_f \<lparr>dec_sign = dec_sign d, dec_int = 0, dec_exp = 0\<rparr> = format_f d"
        unfolding format_f_def by (simp add: z(2,3))
      then show ?thesis by (simp only: z)
    qed
    with p show ?thesis by blast
  qed
qed

text \<open>
  Hence the price string that \<^verbatim>\<open>CreateOrderDetailSchema\<close> dumps for the orders service is
  the price string that \<^verbatim>\<open>GetOrderSchema\<close> dumps for a line that carries it.
\<close>

lemma dump_OrderDetail_price:
  "getitem (dump_OrderDetail (item\<lparr>detail_price := format_f d\<rparr>)) ''price''
     = Inr (JStr (format_f d))"
proof -
  from format_f_stable [of d] obtain d' where
    "parse_decimal (format_f d) = Some d'" "format_f d' = format_f d" by blast
  then show ?thesis
    by (cases "detail_image item") (simp_all add: dump_OrderDetail_def)
qed

lemma dump_CreateOrderDetailSchema_price:
  "getitem (dump_CreateOrderDetailSchema item) ''price'' = Inr (JStr (format_f (price item)))"
  by (simp add: dump_CreateOrderDetailSchema_def)

section \<open>Order creation\<close>

text \<open>
  C1. When the existence check answers false for the product id of at least one line of
  an order-creation request, \<^verbatim>\<open>_create_order\<close> fails and issues no
  \<^verbatim>\<open>create_order\<close> call to the orders service; and, the checks of all lines giving an
  answer, the error is \<^verbatim>\<open>ProductNotFound\<close> with the message \<^verbatim>\<open>Product Id\<close> followed by
  the id of a line whose product does not exist.
\<close>

theorem create_order_missing_product:
  assumes missing:
    "\<exists>item \<in> set (order_details od). products_exists be (product_id item) = Inr False"
  shows "\<not> list_ex is_create_order (snd (create_order_internal be od)) \<and>
         (\<exists>e. fst (create_order_internal be od) = Inl e) \<and>
         ((\<forall>item \<in> set (order_details od).
             \<exists>b. products_exists be (product_id item) = Inr b) \<longrightarrow>
          (\<exists>item \<in> set (order_details od).
             products_exists be (product_id item) = Inr False \<and>
             fst (create_order_internal be od) =
               Inl (ProductNotFound (''Product Id '' @ product_id item))))"
proof -
  from check_product_ids_fails [OF missing] obtain e where
    e: "fst (check_product_ids be (order_details od)) = Inl e" by blast
  note eq = create_order_internal_check_fails [OF e]
  have no_create: "\<not> list_ex is_create_order (snd (create_order_internal be od))"
    using check_product_ids_no_create [of be "order_details od"] by (simp add: eq)
  have fails: "\<exists>e. fst (create_order_internal be od) = Inl e"
    by (simp add: eq)
  have named: "\<exists>item \<in> set (order_details od).
             products_exists be (product_id item) = Inr False \<and>
             fst (create_order_internal be od) =
               Inl (ProductNotFound (''Product Id '' @ product_id item))"
    if answers: "\<forall>item \<in> set (order_details od).
                   \<exists>b. products_exists be (product_id item) = Inr b"
  proof -
    from check_product_ids_missing [OF answers missing] obtain item where
      item: "item \<in> set (order_details od)" "products_exists be (product_id item) = Inr False"
      and r: "fst (check_product_ids be (order_details od))
                = Inl (ProductNotFound (''Product Id '' @ product_id item))"
      by blast
    from create_order_internal_check_fails [OF r] item show ?thesis by auto
  qed
  from no_create fails named show ?thesis by blast
qed

theorem create_order_missing_product_witness:
  "(\<exists>item \<in> set [sample_detail ''p1'', sample_detail ''zz'', sample_detail ''p1''].
      products_exists sample_backend (product_id item) = Inr False) \<and>
   products_exists sample_backend ''p1'' = Inr True \<and>
   products_exists sample_backend ''zz'' = Inr False \<and>
   create_order_internal sample_backend
     \<lparr>order_details = [sample_detail ''p1'', sample_detail ''zz'', sample_detail ''p1'']\<rparr>
     = (Inl (ProductNotFound ''Product Id zz''), [ProductsExists ''p1'', ProductsExists ''zz''])"
proof -
  let ?od = "\<lparr>order_details = [sample_detail ''p1'', sample_detail ''zz'', sample_detail ''p1'']\<rparr>"
  have missing: "\<exists>item \<in> set (order_details ?od).
                   products_exists sample_backend (product_id item) = Inr False"
    by (simp add: sample_backend_simps sample_detail_def)
  have answers: "\<forall>item \<in> set (order_details ?od).
                   \<exists>b. products_exists sample_backend (product_id item) = Inr b"
    by (simp add: sample_backend_simps)
  have run: "create_order_internal sample_backend ?od
     = (Inl (ProductNotFound ''Product Id zz''), [ProductsExists ''p1'', ProductsExists ''zz''])"
    by (simp add: create_order_internal_def sample_backend_simps sample_detail_def)
  from create_order_missing_product [OF missing] answers
  have "\<exists>item \<in> set (order_details ?od).
             products_exists sample_backend (product_id item) = Inr False \<and>
             fst (create_order_internal sample_backend ?od) =
               Inl (ProductNotFound (''Product Id '' @ product_id item))"
    by blast
  with missing run show ?thesis by (simp add: sample_backend_simps)
qed



text \<open>
  C7. For an order-creation request whose \<^verbatim>\<open>order_details\<close> is empty the gateway makes no
  existence check and issues exactly one \<^verbatim>\<open>create_order\<close> call, with the empty list of
  lines; the operation succeeds with the id the orders service assigns. This holds for
  \<^verbatim>\<open>_create_order\<close> and for the handler \<^verbatim>\<open>create_order\<close> on the body
  \<^verbatim>\<open>{"order_details": []}\<close>.
\<close>

theorem create_order_empty:
  "snd (create_order_internal be \<lparr>order_details = []\<rparr>) = [OrdersCreateOrder (JList [])]
   \<and> (\<forall>result. orders_create_order be (JList []) = Inr result \<longrightarrow>
        fst (create_order_internal be \<lparr>order_details = []\<rparr>) = Inr (result_id result))
   \<and> snd (create_order be \<lparr>args = a, data = Inr (JObj [(''order_details'', JList [])])\<rparr>)
        = [OrdersCreateOrder (JList [])]
   \<and> (\<forall>result. orders_create_order be (JList []) = Inr result \<longrightarrow>
        fst (create_order be \<lparr>args = a, data = Inr (JObj [(''order_details'', JList [])])\<rparr>)
          = Inr \<lparr>body = JObj [(''id'', JInt (result_id result))], status = CREATED,
                 mimetype = ''application/json''\<rparr>)"
  by (auto simp: create_order_internal_def create_order_def dump_CreateOrderSchema_def
        load_CreateOrderSchema_def split: sum.splits)

theorem create_order_empty_witness:
  "orders_create_order sample_backend (JList []) = Inr \<lparr>result_id = 7\<rparr> \<and>
   create_order_internal sample_backend \<lparr>order_details = []\<rparr>
     = (Inr 7, [OrdersCreateOrder (JList [])]) \<and>
   create_order sample_backend \<lparr>args = [], data = Inr (JObj [(''order_details'', JList [])])\<rparr>
     = (Inr \<lparr>body = JObj [(''id'', JInt 7)], status = CREATED,
             mimetype = ''application/json''\<rparr>,
        [OrdersCreateOrder (JList [])])"
proof -
  have accepted: "orders_create_order sample_backend (JList []) = Inr \<lparr>result_id = 7\<rparr>"
    by (simp add: sample_backend_simps)
  from create_order_empty [of sample_backend "[]"] accepted
  have "snd (create_order_internal sample_backend \<lparr>order_details = []\<rparr>)
          = [OrdersCreateOrder (JList [])]"
    and "fst (create_order_internal sample_backend \<lparr>order_details = []\<rparr>) = Inr 7"
    and "snd (create_order sample_backend
               \<lparr>args = [], data = Inr (JObj [(''order_details'', JList [])])\<rparr>)
          = [OrdersCreateOrder (JList [])]"
    and "fst (create_order sample_backend
               \<lparr>args = [], data = Inr (JObj [(''order_details'', JList [])])\<rparr>)
          = Inr \<lparr>body = JObj [(''id'', JInt 7)], status = CREATED,
                 mimetype = ''application/json''\<rparr>"
    by simp_all
  with accepted show ?thesis by (simp add: prod_eq_iff)
qed

section \<open>Order retrieval\<close>

text \<open>
  C3. When the order is found, the image root is configured and the product lookup of
  every line succeeds, \<^verbatim>\<open>_get_order\<close> returns the order with the same lines in the same
  order, where each line's \<^verbatim>\<open>product\<close> is what \<^verbatim>\<open>products_rpc.get\<close> returns for the line's
  product id and each line's \<^verbatim>\<open>image\<close> is the image root, a slash, the product id and
  \<^verbatim>\<open>.jpg\<close>.
\<close>

theorem get_order_enriches:
  assumes found: "orders_get_order be ident = Inr order"
    and root: "cfg ''PRODUCT_IMAGE_ROOT'' = Some image_root"
    and lookups: "\<forall>item \<in> set (order_lines order).
                    \<exists>p. products_get be (detail_product_id item) = Inr p"
  shows "\<exists>enriched.
           fst (get_order_internal be cfg ident) = Inr enriched \<and>
           order_id enriched = order_id order \<and>
           map (\<lambda>item. item\<lparr>detail_product := None, detail_image := None\<rparr>)
               (order_lines enriched)
             = map (\<lambda>item. item\<lparr>detail_product := None, detail_image := None\<rparr>)
                   (order_lines order) \<and>
           (\<forall>item \<in> set (order_lines enriched).
              (\<exists>p. detail_product item = Some p \<and>
                    products_get be (detail_product_id item) = Inr p) \<and>
              detail_image item = Some (image_root @ ''/'' @ detail_product_id item @ ''.jpg''))"
proof -
  from enhance_order_details_ok [OF lookups, of image_root] obtain items' where
    e: "enhance_order_details be image_root (order_lines order)
         = (Inr items', map (\<lambda>item. ProductsGet (detail_product_id item)) (order_lines order))"
    and rest: "map (\<lambda>item. item\<lparr>detail_product := None, detail_image := None\<rparr>) items'
       = map (\<lambda>item. item\<lparr>detail_product := None, detail_image := None\<rparr>) (order_lines order)"
     "\<forall>item' \<in> set items'.
        (\<exists>p. detail_product item' = Some p \<and> products_get be (detail_product_id item') = Inr p) \<and>
        detail_image item' = Some (image_root @ ''/'' @ detail_product_id item' @ ''.jpg'')"
    by blast
  have "fst (get_order_internal be cfg ident) = Inr (order\<lparr>order_lines := items'\<rparr>)"
    using found root e by (simp add: get_order_internal_def)
  with rest show ?thesis by simp
qed

theorem get_order_enriches_witness:
  "orders_get_order sample_backend 1 = Inr sample_order \<and>
   sample_config ''PRODUCT_IMAGE_ROOT'' = Some ''http://img'' \<and>
   map detail_product_id (order_lines sample_order) = [''p1''] \<and>
   products_get sample_backend ''p1'' = Inr sample_product \<and>
   fst (get_order_internal sample_backend sample_config 1)
     = Inr \<lparr>order_id = 1,
            order_lines =
              [\<lparr>detail_id = 1, detail_quantity = 2, detail_product_id = ''p1'',
                detail_image = Some ''http://img/p1.jpg'', detail_price = ''9.99'',
                detail_product = Some sample_product\<rparr>]\<rparr>"
proof -
  have found: "orders_get_order sample_backend 1 = Inr sample_order"
    by (simp add: sample_backend_simps)
  have root: "sample_config ''PRODUCT_IMAGE_ROOT'' = Some ''http://img''"
    by (simp add: sample_config_def)
  have lookups: "\<forall>item \<in> set (order_lines sample_order).
      \<exists>p. products_get sample_backend (detail_product_id item) = Inr p"
    by (simp add: sample_backend_simps sample_order_def)
  from get_order_enriches [where cfg = sample_config, OF found root lookups] obtain enriched where
    e: "fst (get_order_internal sample_backend sample_config 1) = Inr enriched"
    by blast
  have "fst (get_order_internal sample_backend sample_config 1)
     = Inr \<lparr>order_id = 1,
            order_lines =
              [\<lparr>detail_id = 1, detail_quantity = 2, detail_product_id = ''p1'',
                detail_image = Some ''http://img/p1.jpg'', detail_price = ''9.99'',
                detail_product = Some sample_product\<rparr>]\<rparr>"
    by (simp add: get_order_internal_def sample_backend_simps sample_config_def
          sample_order_def)
  with found root e show ?thesis by (simp add: sample_backend_simps sample_order_def)
qed

text \<open>
  C4. When the order is found and the product lookup of some line fails, the retrieval
  fails as a whole: \<^verbatim>\<open>_get_order\<close> and the handler \<^verbatim>\<open>get_order\<close> raise the same error and
  return no order; with the image root configured, the error is the one a failing
  lookup of a line raised.
\<close>

theorem get_order_lookup_fails:
  assumes found: "orders_get_order be ident = Inr order"
    and lookup: "\<exists>item \<in> set (order_lines order).
                   \<exists>e. products_get be (detail_product_id item) = Inl e"
  shows "\<exists>e. fst (get_order_internal be cfg ident) = Inl e \<and>
             fst (get_order be cfg req ident) = Inl e \<and>
             (cfg ''PRODUCT_IMAGE_ROOT'' \<noteq> None \<longrightarrow>
                (\<exists>item \<in> set (order_lines order).
                   products_get be (detail_product_id item) = Inl e))"
proof (cases "cfg ''PRODUCT_IMAGE_ROOT''")
  case None
  with found show ?thesis by (simp add: get_order_internal_def get_order_def)
next
  case (Some image_root)
  from enhance_order_details_fails [OF lookup, of image_root] obtain item e where
    item: "item \<in> set (order_lines order)" "products_get be (detail_product_id item) = Inl e"
    and f: "fst (enhance_order_details be image_root (order_lines order)) = Inl e" by blast
  from f found Some have "fst (get_order_internal be cfg ident) = Inl e"
    by (cases "enhance_order_details be image_root (order_lines order)")
       (simp add: get_order_internal_def)
  moreover from this have "fst (get_order be cfg req ident) = Inl e"
    by (cases "get_order_internal be cfg ident") (simp add: get_order_def)
  ultimately show ?thesis using item by blast
qed

theorem get_order_lookup_fails_witness:
  "orders_get_order sample_backend 2 = Inr stale_order \<and>
   (\<exists>item \<in> set (order_lines stale_order).
      \<exists>e. products_get sample_backend (detail_product_id item) = Inl e) \<and>
   sample_config ''PRODUCT_IMAGE_ROOT'' \<noteq> None \<and>
   get_order sample_backend sample_config \<lparr>args = [], data = Inl []\<rparr> 2
     = (Inl (ProductNotFound ''gone''),
        [OrdersGetOrder 2, ProductsGet ''p1'', ProductsGet ''gone''])"
proof -
  have found: "orders_get_order sample_backend 2 = Inr stale_order"
    by (simp add: sample_backend_simps)
  have lookup: "\<exists>item \<in> set (order_lines stale_order).
      \<exists>e. products_get sample_backend (detail_product_id item) = Inl e"
    by (simp add: sample_backend_simps stale_order_def)
  have root: "sample_config ''PRODUCT_IMAGE_ROOT'' \<noteq> None"
    by (simp add: sample_config_def)
  from get_order_lookup_fails [OF found lookup, of sample_config "\<lparr>args = [], data = Inl []\<rparr>"]
  obtain e where
    e: "fst (get_order sample_backend sample_config \<lparr>args = [], data = Inl []\<rparr> 2) = Inl e"
    by blast
  have "get_order sample_backend sample_config \<lparr>args = [], data = Inl []\<rparr> 2
     = (Inl (ProductNotFound ''gone''),
        [OrdersGetOrder 2, ProductsGet ''p1'', ProductsGet ''gone''])"
    by (simp add: get_order_def get_order_internal_def sample_backend_simps sample_config_def
          stale_order_def)
  with found lookup root e show ?thesis by simp
qed

text \<open>
  C10. A response of the single-order handler \<^verbatim>\<open>get_order\<close> is never wrapped: its body
  is the enriched order itself, a dict with the keys \<^verbatim>\<open>id\<close> and \<^verbatim>\<open>order_details\<close> at the top
  level, and it has neither a \<^verbatim>\<open>count\<close> nor a \<^verbatim>\<open>data\<close> key.
\<close>

theorem get_order_not_wrapped:
  assumes "fst (get_order be cfg req ident) = Inr resp"
  shows "\<exists>order.
           fst (get_order_internal be cfg ident) = Inr order \<and>
           body resp = JObj [(''id'', JInt (order_id order)),
                             (''order_details'', JList (map dump_OrderDetail (order_lines order)))] \<and>
           getitem (body resp) ''count'' = Inl (KeyError ''count'') \<and>
           getitem (body resp) ''data'' = Inl (KeyError ''data'')"
  using assms
  by (cases "get_order_internal be cfg ident")
     (auto simp: get_order_def dump_GetOrderSchema_def wrap_with_count_def
        marshal_GetOrderSchema_def split: sum.splits)

theorem get_order_not_wrapped_witness:
  "fst (get_order sample_backend sample_config \<lparr>args = [], data = Inl []\<rparr> 1)
     = Inr \<lparr>body =
              JObj [(''id'', JInt 1),
                    (''order_details'',
                     JList [JObj [(''id'', JInt 1),
                                  (''quantity'', JInt 2),
                                  (''product_id'', JStr ''p1''),
                                  (''image'', JStr ''http://img/p1.jpg''),
                                  (''price'', JStr ''9.99''),
                                  (''product'', dump_CreateProductSchema sample_product)]])],
            status = OK, mimetype = ''application/json''\<rparr> \<and>
   getitem (body (projr (fst (get_order sample_backend sample_config
                                \<lparr>args = [], data = Inl []\<rparr> 1)))) ''count''
     = Inl (KeyError ''count'')"
proof -
  let ?resp = "\<lparr>body =
              JObj [(''id'', JInt 1),
                    (''order_details'',
                     JList [JObj [(''id'', JInt 1),
                                  (''quantity'', JInt 2),
                                  (''product_id'', JStr ''p1''),
                                  (''image'', JStr ''http://img/p1.jpg''),
                                  (''price'', JStr ''9.99''),
                                  (''product'', dump_CreateProductSchema sample_product)]])],
            status = OK, mimetype = ''application/json''\<rparr>"
  have r: "fst (get_order sample_backend sample_config \<lparr>args = [], data = Inl []\<rparr> 1)
             = Inr ?resp"
    by (simp add: get_order_def get_order_internal_def sample_backend_simps sample_config_def
          sample_order_def dump_GetOrderSchema_eq marshal_GetOrderSchema_def
          dump_OrderDetail_def parse_decimal_9_99 format_f_9_99)
  from get_order_not_wrapped [OF r]
  have "getitem (body ?resp) ''count'' = Inl (KeyError ''count'')" by blast
  with r show ?thesis by simp
qed

section \<open>Order listing\<close>



text \<open>
  C9, as the code has it. \<^verbatim>\<open>list_orders\<close> reads \<^verbatim>\<open>p\<close> and \<^verbatim>\<open>per_page\<close> from the query
  string with \<^verbatim>\<open>int\<close>: an absent parameter takes its default (page 1, size 10), and when
  both values are integers they are passed unchanged to the orders service's
  \<^verbatim>\<open>list_orders\<close>. A parameter that is present and is no integer literal is not replaced
  by its default: the handler raises the \<^verbatim>\<open>ValueError\<close> of \<^verbatim>\<open>int\<close> and calls no service.
\<close>

theorem list_orders_paging:
  assumes page: "page = (case map_of (args req) ''p'' of None \<Rightarrow> Inr 1 | Some s \<Rightarrow> py_int s)"
    and per_page:
      "per_page = (case map_of (args req) ''per_page'' of None \<Rightarrow> Inr 10 | Some s \<Rightarrow> py_int s)"
  shows "(\<forall>p n. page = Inr p \<and> per_page = Inr n \<longrightarrow>
            snd (list_orders be req) = [OrdersListOrders p n]) \<and>
         (\<forall>e. page = Inl e \<longrightarrow> list_orders be req = (Inl e, [])) \<and>
         (\<forall>p e. page = Inr p \<and> per_page = Inl e \<longrightarrow> list_orders be req = (Inl e, [])) \<and>
         (\<forall>e. page = Inl e \<or> per_page = Inl e \<longrightarrow> (\<exists>s. e = ValueError s))"
  using assms
  by (auto simp: list_orders_def int_arg_def dump_many_GetOrderSchema_eq
        split: sum.splits option.splits dest: py_int_error)

theorem list_orders_paging_witness:
  "snd (list_orders sample_backend \<lparr>args = [], data = Inl []\<rparr>) = [OrdersListOrders 1 10] \<and>
   snd (list_orders sample_backend
          \<lparr>args = [(''p'', ''2''), (''per_page'', ''5'')], data = Inl []\<rparr>)
     = [OrdersListOrders 2 5] \<and>
   list_orders sample_backend \<lparr>args = [(''per_page'', ''ten'')], data = Inl []\<rparr>
     = (Inl (ValueError ''ten''), [])"
proof -
  have two: "py_int ''2'' = Inr 2" and five: "py_int ''5'' = Inr 5"
    and ten: "py_int ''ten'' = Inl (ValueError ''ten'')"
    by code_simp+
  have "snd (list_orders sample_backend \<lparr>args = [], data = Inl []\<rparr>) = [OrdersListOrders 1 10]"
    using list_orders_paging [of "Inr 1" "\<lparr>args = [], data = Inl []\<rparr>" "Inr 10" sample_backend]
    by simp
  moreover have "snd (list_orders sample_backend
          \<lparr>args = [(''p'', ''2''), (''per_page'', ''5'')], data = Inl []\<rparr>)
     = [OrdersListOrders 2 5]"
    using list_orders_paging [of "Inr 2"
        "\<lparr>args = [(''p'', ''2''), (''per_page'', ''5'')], data = Inl []\<rparr>" "Inr 5" sample_backend]
    by (simp add: two five)
  moreover have "list_orders sample_backend \<lparr>args = [(''per_page'', ''ten'')], data = Inl []\<rparr>
     = (Inl (ValueError ''ten''), [])"
    using list_orders_paging [of "Inr 1"
        "\<lparr>args = [(''per_page'', ''ten'')], data = Inl []\<rparr>" "Inl (ValueError ''ten'')"
        sample_backend]
    by (simp add: ten)
  ultimately show ?thesis by simp
qed

text \<open>
  C9 as stated fails: with \<^verbatim>\<open>p=abc\<close> in the query string the default page is not applied
  and the orders service is not called with page 1 and size 10; the handler raises
  \<^verbatim>\<open>ValueError\<close> and calls nothing.
\<close>

theorem list_orders_malformed_page:
  "list_orders sample_backend \<lparr>args = [(''p'', ''abc'')], data = Inl []\<rparr>
     = (Inl (ValueError ''abc''), []) \<and>
   snd (list_orders sample_backend \<lparr>args = [(''p'', ''abc'')], data = Inl []\<rparr>)
     \<noteq> [OrdersListOrders 1 10]"
proof -
  have "py_int ''abc'' = Inl (ValueError ''abc'')" by code_simp
  then show ?thesis by (simp add: list_orders_def int_arg_def)
qed

section \<open>Properties that depend on what the services store\<close>

text \<open>
  C6. Round trip against the modelled services. In any state of the services in which
  the product \<^verbatim>\<open>p1\<close> exists, creating an order with the single line
  \<^verbatim>\<open>{product_id: "p1", price: "9.99", quantity: 2}\<close> succeeds with the id the orders
  service assigns and leaves the catalogue as it is; retrieving the order with that id
  then yields one line with quantity 2, the price string \<^verbatim>\<open>9.99\<close>, the image link of
  \<^verbatim>\<open>p1\<close> and the current record of \<^verbatim>\<open>p1\<close> as its product.
\<close>

theorem order_round_trip:
  fixes s :: services
  assumes p1: "products s ''p1'' = Some p"
    and root: "cfg ''PRODUCT_IMAGE_ROOT'' = Some image_root"
  shows "\<exists>ident s'.
           run (\<lambda>be. create_order be
                  \<lparr>args = a,
                   data = Inr (JObj [(''order_details'',
                            JList [JObj [(''product_id'', JStr ''p1''),
                                         (''price'', JStr ''9.99''),
                                         (''quantity'', JInt 2)]])])\<rparr>) s
             = (Inr \<lparr>body = JObj [(''id'', JInt ident)], status = CREATED,
                     mimetype = ''application/json''\<rparr>, s') \<and>
           products s' = products s \<and>
           fst (run (\<lambda>be. get_order be cfg req ident) s')
             = Inr \<lparr>body =
                      JObj [(''id'', JInt ident),
                            (''order_details'',
                             JList [JObj [(''id'', JInt 1),
                                          (''quantity'', JInt 2),
                                          (''product_id'', JStr ''p1''),
                                          (''image'', JStr (image_root @ ''/p1.jpg'')),
                                          (''price'', JStr ''9.99''),
                                          (''product'', dump_CreateProductSchema p)]])],
                    status = OK, mimetype = ''application/json''\<rparr>"
proof -
  let ?lines = "JList [JObj [(''product_id'', JStr ''p1''), (''price'', JStr ''9.99''),
                             (''quantity'', JInt 2)]]"
  let ?ds = "[\<lparr>detail_id = 1, detail_quantity = 2, detail_product_id = ''p1'',
               detail_image = None, detail_price = ''9.99'', detail_product = None\<rparr>]"
  let ?ident = "fresh_order_id (orders s)"
  let ?s' = "s\<lparr>orders := orders s @ [\<lparr>order_id = ?ident, order_lines = ?ds\<rparr>]\<rparr>"
  have load: "load_CreateOrderSchema (JObj [(''order_details'', ?lines)])
     = Inr \<lparr>order_details = [\<lparr>product_id = ''p1'',
              price = \<lparr>dec_sign = False, dec_int = 999, dec_exp = - 2\<rparr>, quantity = 2\<rparr>]\<rparr>"
    by (simp add: load_CreateOrderSchema_def load_CreateOrderDetailSchema_def required_def
          parse_decimal_9_99)
  have svc: "orders_service_create_order s ?lines = (Inr \<lparr>result_id = ?ident\<rparr>, ?s')"
    by (simp add: orders_service_create_order_def)
  have inner: "create_order_internal (serve s)
       \<lparr>order_details = [\<lparr>product_id = ''p1'',
              price = \<lparr>dec_sign = False, dec_int = 999, dec_exp = - 2\<rparr>, quantity = 2\<rparr>]\<rparr>
     = (Inr ?ident, [ProductsExists ''p1'', OrdersCreateOrder ?lines])"
    using p1
    by (simp add: create_order_internal_def serve_def products_service_exists_def
          dump_CreateOrderSchema_def dump_CreateOrderDetailSchema_def format_f_9_99 svc)
  have created: "run (\<lambda>be. create_order be
                  \<lparr>args = a, data = Inr (JObj [(''order_details'', ?lines)])\<rparr>) s
             = (Inr \<lparr>body = JObj [(''id'', JInt ?ident)], status = CREATED,
                     mimetype = ''application/json''\<rparr>, ?s')"
    by (simp add: run_def create_order_def load inner svc)
  have got: "orders_get_order (serve ?s') ?ident = Inr \<lparr>order_id = ?ident, order_lines = ?ds\<rparr>"
    by (simp add: serve_def orders_service_get_order_def find_fresh_order_id)
  have prod: "products_get (serve ?s') ''p1'' = Inr p"
    using p1 by (simp add: serve_def products_service_get_def)
  have fetched: "get_order_internal (serve ?s') cfg ?ident
      = (Inr \<lparr>order_id = ?ident,
              order_lines = [\<lparr>detail_id = 1, detail_quantity = 2, detail_product_id = ''p1'',
                 detail_image = Some (image_root @ ''/p1.jpg''), detail_price = ''9.99'',
                 detail_product = Some p\<rparr>]\<rparr>,
         [OrdersGetOrder ?ident, ProductsGet ''p1''])"
    using root by (simp add: get_order_internal_def got prod)
  have "fst (run (\<lambda>be. get_order be cfg req ?ident) ?s')
             = Inr \<lparr>body =
                      JObj [(''id'', JInt ?ident),
                            (''order_details'',
                             JList [JObj [(''id'', JInt 1),
                                          (''quantity'', JInt 2),
                                          (''product_id'', JStr ''p1''),
                                          (''image'', JStr (image_root @ ''/p1.jpg'')),
                                          (''price'', JStr ''9.99''),
                                          (''product'', dump_CreateProductSchema p)]])],
                    status = OK, mimetype = ''application/json''\<rparr>"
    by (simp add: run_def get_order_def fetched dump_GetOrderSchema_eq
          marshal_GetOrderSchema_def dump_OrderDetail_def parse_decimal_9_99 format_f_9_99)
  with created show ?thesis by auto
qed

theorem order_round_trip_witness:
  "products sample_services ''p1'' = Some sample_product \<and>
   sample_config ''PRODUCT_IMAGE_ROOT'' = Some ''http://img'' \<and>
   (\<exists>ident s'.
      run (\<lambda>be. create_order be
             \<lparr>args = [],
              data = Inr (JObj [(''order_details'',
                       JList [JObj [(''product_id'', JStr ''p1''),
                                    (''price'', JStr ''9.99''),
                                    (''quantity'', JInt 2)]])])\<rparr>) sample_services
        = (Inr \<lparr>body = JObj [(''id'', JInt ident)], status = CREATED,
                mimetype = ''application/json''\<rparr>, s') \<and>
      products s' = products sample_services \<and>
      fst (run (\<lambda>be. get_order be sample_config \<lparr>args = [], data = Inl []\<rparr> ident) s')
        = Inr \<lparr>body =
                 JObj [(''id'', JInt ident),
                       (''order_details'',
                        JList [JObj [(''id'', JInt 1),
                                     (''quantity'', JInt 2),
                                     (''product_id'', JStr ''p1''),
                                     (''image'', JStr (''http://img'' @ ''/p1.jpg'')),
                                     (''price'', JStr ''9.99''),
                                     (''product'', dump_CreateProductSchema sample_product)]])],
               status = OK, mimetype = ''application/json''\<rparr>)"
proof -
  have p1: "products sample_services ''p1'' = Some sample_product"
    by (simp add: sample_services_def)
  have root: "sample_config ''PRODUCT_IMAGE_ROOT'' = Some ''http://img''"
    by (simp add: sample_config_def)
  from p1 root
    order_round_trip [where cfg = sample_config and a = "[]"
                        and req = "\<lparr>args = [], data = Inl []\<rparr>", OF p1 root]
  show ?thesis by (intro conjI)
qed

text \<open>
  C8. Product update against the modelled products service. For the body
  \<^verbatim>\<open>{"title": "New"}\<close> the gateway sends exactly one \<^verbatim>\<open>update\<close> call, whose data carry the
  title and \<^verbatim>\<open>None\<close> for every other field. When the product exists the request succeeds
  and changes the title of that product only: its other fields and all other products
  stay as they are. When the product id does not exist the request fails with
  \<^verbatim>\<open>ProductNotFound\<close> and changes nothing.
\<close>

theorem update_product_title_only:
  fixes s :: services
  shows "snd (update_product be \<lparr>args = a, data = Inr (JObj [(''title'', JStr ''New'')])\<rparr> ident)
           = [ProductsUpdate ident \<lparr>upd_title = Some ''New'', upd_maximum_speed = None,
                                    upd_in_stock = None, upd_passenger_capacity = None\<rparr>]
         \<and> (\<forall>p. products s ident = Some p \<longrightarrow>
               run (\<lambda>be. update_product be
                      \<lparr>args = a, data = Inr (JObj [(''title'', JStr ''New'')])\<rparr> ident) s =
                 (Inr \<lparr>body = JObj [(''id'', JStr ident)], status = OK,
                       mimetype = ''application/json''\<rparr>,
                  s\<lparr>products := (products s)(ident \<mapsto> p\<lparr>title := ''New''\<rparr>)\<rparr>))
         \<and> (products s ident = None \<longrightarrow>
               run (\<lambda>be. update_product be
                      \<lparr>args = a, data = Inr (JObj [(''title'', JStr ''New'')])\<rparr> ident) s
                 = (Inl (ProductNotFound ident), s))"
  by (auto simp: update_product_def load_UpdateProductSchema_def missing_None_def
        run_def serve_def products_service_update_def apply_update_def split: sum.splits)

theorem update_product_title_only_witness:
  "products sample_services ''p1'' = Some sample_product \<and>
   run (\<lambda>be. update_product be
          \<lparr>args = [], data = Inr (JObj [(''title'', JStr ''New'')])\<rparr> ''p1'') sample_services
     = (Inr \<lparr>body = JObj [(''id'', JStr ''p1'')], status = OK,
             mimetype = ''application/json''\<rparr>,
        sample_services\<lparr>products :=
          (products sample_services)(''p1'' \<mapsto>
             \<lparr>p_id = ''p1'', title = ''New'', maximum_speed = 5, in_stock = 10,
              passenger_capacity = 101\<rparr>)\<rparr>) \<and>
   products sample_services ''zz'' = None \<and>
   run (\<lambda>be. update_product be
          \<lparr>args = [], data = Inr (JObj [(''title'', JStr ''New'')])\<rparr> ''zz'') sample_services
     = (Inl (ProductNotFound ''zz''), sample_services)"
proof -
  have p1: "products sample_services ''p1'' = Some sample_product"
    by (simp add: sample_services_def)
  have zz: "products sample_services ''zz'' = None"
    by (simp add: sample_services_def)
  have new: "sample_product\<lparr>title := ''New''\<rparr>
     = \<lparr>p_id = ''p1'', title = ''New'', maximum_speed = 5, in_stock = 10,
        passenger_capacity = 101\<rparr>"
    by (simp add: sample_product_def)
  from update_product_title_only [of sample_backend "[]" "''p1''" sample_services] p1
  have "run (\<lambda>be. update_product be
          \<lparr>args = [], data = Inr (JObj [(''title'', JStr ''New'')])\<rparr> ''p1'') sample_services
     = (Inr \<lparr>body = JObj [(''id'', JStr ''p1'')], status = OK,
             mimetype = ''application/json''\<rparr>,
        sample_services\<lparr>products :=
          (products sample_services)(''p1'' \<mapsto> sample_product\<lparr>title := ''New''\<rparr>)\<rparr>)"
    by blast
  moreover
  from update_product_title_only [of sample_backend "[]" "''zz''" sample_services] zz
  have "run (\<lambda>be. update_product be
          \<lparr>args = [], data = Inr (JObj [(''title'', JStr ''New'')])\<rparr> ''zz'') sample_services
     = (Inl (ProductNotFound ''zz''), sample_services)"
    by blast
  ultimately show ?thesis using p1 zz by (simp add: new)
qed

end
